theory Spec2Isabelle
  imports Main "HOL-Library.AList"
begin

section \<open>JavaScript values\<close>

text \<open>
  The record codec of \<^verbatim>\<open>src/record.js\<close> works on plain JavaScript data: strings, numbers,
  arrays and objects used as property maps. Values are modelled as trees:
  \<^item> numbers are the integers (\<open>ttl\<close>, \<open>serial\<close>, ... are integer fields); fractions, \<open>NaN\<close>
    and the exponent notation of integers from \<open>10^21\<close> on are not represented;
  \<^item> strings are lists of 8-bit characters, read as ASCII;
  \<^item> an object is its list of own enumerable properties in insertion order, read through
    \<open>map_of\<close> (the first entry of a key is its value); function-valued properties, property
    values that refer back to the object holding them, the engine's rule that integer-like
    keys are enumerated first, and data objects with a property \<open>toString\<close> or \<open>valueOf\<close> of
    their own (which would replace the conversion to a string) are not represented.
\<close>

datatype jsval =
    JUndefined
  | JNull
  | JBool bool
  | JNum int
  | JStr string
  | JArr "jsval list"
  | JObj "(string \<times> jsval) list"

type_synonym jsobj = "(string \<times> jsval) list"

text \<open>
  The only exception the codec can raise is the engine's \<open>TypeError\<close> (a method called on
  \<open>undefined\<close> or on a value that does not have it). The source defines no error class of
  its own; \<open>error_name\<close> is the \<open>name\<close> property of the thrown error.
\<close>

datatype error = TypeError

definition error_name :: "error \<Rightarrow> string" where
  "error_name e = (case e of TypeError \<Rightarrow> ''TypeError'')"

text \<open>Truthiness, as tested by \<^verbatim>\<open>if (x)\<close> and \<^verbatim>\<open>x || y\<close>.\<close>

definition truthy :: "jsval \<Rightarrow> bool" where
  "truthy v =
     (case v of
        JUndefined \<Rightarrow> False
      | JNull \<Rightarrow> False
      | JBool b \<Rightarrow> b
      | JNum n \<Rightarrow> n \<noteq> 0
      | JStr s \<Rightarrow> s \<noteq> []
      | JArr xs \<Rightarrow> True
      | JObj ps \<Rightarrow> True)"

subsection \<open>Property access\<close>

text \<open>
  \<^verbatim>\<open>obj[name]\<close> reads \<open>undefined\<close> for a missing property; \<^verbatim>\<open>obj[name] = v\<close> overwrites
  in place or appends; \<^verbatim>\<open>delete obj[name]\<close> removes the property.
\<close>

definition hasOwn :: "jsobj \<Rightarrow> string \<Rightarrow> bool" where
  "hasOwn obj name = (map_of obj name \<noteq> None)"

definition getProperty :: "jsobj \<Rightarrow> string \<Rightarrow> jsval" where
  "getProperty obj name = (case map_of obj name of None \<Rightarrow> JUndefined | Some v \<Rightarrow> v)"

definition setProperty :: "jsobj \<Rightarrow> string \<Rightarrow> jsval \<Rightarrow> jsobj" where
  "setProperty obj name newValue = AList.update name newValue obj"

definition deleteProperty :: "jsobj \<Rightarrow> string \<Rightarrow> jsobj" where
  "deleteProperty obj name = AList.delete name obj"

subsection \<open>Strings\<close>

definition toUpperCase_char :: "char \<Rightarrow> char" where
  "toUpperCase_char c =
     (let n = (of_char c :: nat) in if 97 \<le> n \<and> n \<le> 122 then char_of (n - 32) else c)"

definition toLowerCase_char :: "char \<Rightarrow> char" where
  "toLowerCase_char c =
     (let n = (of_char c :: nat) in if 65 \<le> n \<and> n \<le> 90 then char_of (n + 32) else c)"

definition toUpperCase :: "string \<Rightarrow> string" where
  "toUpperCase s = map toUpperCase_char s"

definition toLowerCase :: "string \<Rightarrow> string" where
  "toLowerCase s = map toLowerCase_char s"

text \<open>\<^verbatim>\<open>Array.prototype.join\<close> on an array of strings.\<close>

fun join :: "string \<Rightarrow> string list \<Rightarrow> string" where
  "join sep [] = []"
| "join sep [x] = x"
| "join sep (x # y # ys) = x @ sep @ join sep (y # ys)"

text \<open>Decimal digits of a non-negative integer, most significant first.\<close>

definition digit_char :: "int \<Rightarrow> char" where
  "digit_char d = char_of (48 + d)"

function digits :: "int \<Rightarrow> string" where
  "digits n = (if n < 10 then [digit_char n] else digits (n div 10) @ [digit_char (n mod 10)])"
  by pat_completeness auto
termination
  by (relation "measure nat") auto

declare digits.simps [simp del]

definition NumberToString :: "int \<Rightarrow> string" where
  "NumberToString n = (if n < 0 then CHR ''-'' # digits (- n) else digits n)"

text \<open>
  The \<open>ToString\<close> conversion applied to the value a replacer function returns. An array is
  joined with commas, \<open>null\<close> and \<open>undefined\<close> elements giving the empty string; a plain
  object is \<^verbatim>\<open>[object Object]\<close>.
\<close>

fun ToString :: "jsval \<Rightarrow> string" where
  "ToString JUndefined = ''undefined''"
| "ToString JNull = ''null''"
| "ToString (JBool b) = (if b then ''true'' else ''false'')"
| "ToString (JNum n) = NumberToString n"
| "ToString (JStr s) = s"
| "ToString (JArr xs) =
     join '','' (map (\<lambda>x. if x = JUndefined \<or> x = JNull then [] else ToString x) xs)"
| "ToString (JObj ps) = ''[object Object]''"

section \<open>The libraries the codec calls\<close>

text \<open>
  \<^verbatim>\<open>record.js\<close> requires three packages that are not part of the repository: \<open>arrify\<close>,
  \<open>extend\<close> and \<open>string-format-obj\<close>. They are modelled from their published
  implementations, which are short; the codec's own code is modelled from the source file.
\<close>

subsection \<open>\<^verbatim>\<open>arrify\<close>\<close>

text \<open>
  \<^verbatim>\<open>
  module.exports = function (val) {
    if (val === null || val === undefined) { return []; }
    return Array.isArray(val) ? val : [val];
  };
  \<close>
\<close>

definition arrify :: "jsval \<Rightarrow> jsval list" where
  "arrify val =
     (case val of
        JNull \<Rightarrow> []
      | JUndefined \<Rightarrow> []
      | JArr xs \<Rightarrow> xs
      | _ \<Rightarrow> [val])"

subsection \<open>\<^verbatim>\<open>extend\<close>\<close>

text \<open>
  The shallow form \<^verbatim>\<open>extend(target, obj1, obj2, ...)\<close>: for every source that is not
  \<open>null\<close> or \<open>undefined\<close>, for every \<^verbatim>\<open>name in source\<close>, the value \<^verbatim>\<open>source[name]\<close> is
  assigned to \<^verbatim>\<open>target[name]\<close> unless it is \<open>undefined\<close>.
  \<open>enumerate_props\<close> is the \<^verbatim>\<open>for (name in options)\<close> loop's view of a source: the
  properties of an object, the indices of an array or of a string, nothing for other
  values. \<open>extend\<close> also skips a value that is the target itself; on values, which are
  trees, no property can hold the object it belongs to.
\<close>

definition index_names :: "nat \<Rightarrow> string list" where
  "index_names n = map (\<lambda>i. digits (int i)) [0..<n]"

definition enumerate_props :: "jsval \<Rightarrow> (string \<times> jsval) list" where
  "enumerate_props options =
     (case options of
        JObj ps \<Rightarrow> map (\<lambda>name. (name, getProperty ps name)) (map fst ps)
      | JArr xs \<Rightarrow> zip (index_names (length xs)) xs
      | JStr s \<Rightarrow> zip (index_names (length s)) (map (\<lambda>c. JStr [c]) s)
      | _ \<Rightarrow> [])"

definition extend_step :: "jsobj \<Rightarrow> string \<times> jsval \<Rightarrow> jsobj" where
  "extend_step target p =
     (case p of (name, copy) \<Rightarrow>
        if copy \<noteq> JUndefined then setProperty target name copy else target)"

definition extend1 :: "jsobj \<Rightarrow> jsval \<Rightarrow> jsobj" where
  "extend1 target options = foldl extend_step target (enumerate_props options)"

definition extend :: "jsobj \<Rightarrow> jsval list \<Rightarrow> jsobj" where
  "extend target sources = foldl extend1 target sources"

subsection \<open>\<^verbatim>\<open>string-format-obj\<close>\<close>

text \<open>
  \<^verbatim>\<open>
  module.exports = function (template, args) {
    return template.replace(/{([^}]*)}/g, function (match, key) {
      return key in args ? args[key] : match;
    });
  };
  \<close>
  \<open>span_brace\<close> is the \<^verbatim>\<open>([^}]*)}\<close> part of the pattern after an opening brace: the key up
  to the next closing brace, and the text after it. \<open>replacer\<close> is the callback: a
  placeholder whose key the arguments do not have is replaced by itself, and the value of
  one they have is converted to a string. A template that is not a string has no
  \<open>replace\<close> method: the call throws a \<open>TypeError\<close>. The templates of this program name no
  property that every object inherits, so \<^verbatim>\<open>key in args\<close> is \<open>hasOwn\<close>.
\<close>

definition replacer :: "jsobj \<Rightarrow> string \<Rightarrow> string \<Rightarrow> string" where
  "replacer args match key = (if hasOwn args key then ToString (getProperty args key) else match)"

fun span_brace :: "string \<Rightarrow> (string \<times> string) option" where
  "span_brace [] = None"
| "span_brace (c # cs) =
     (if c = CHR ''}'' then Some ([], cs)
      else (case span_brace cs of None \<Rightarrow> None | Some (key, rest) \<Rightarrow> Some (c # key, rest)))"

function replace_placeholders :: "string \<Rightarrow> jsobj \<Rightarrow> string" where
  "replace_placeholders [] args = []"
| "replace_placeholders (c # cs) args =
     (if c = CHR ''{'' then
        (case span_brace cs of
           None \<Rightarrow> c # replace_placeholders cs args
         | Some (key, rest) \<Rightarrow>
             replacer args (CHR ''{'' # key @ ''}'') key @ replace_placeholders rest args)
      else c # replace_placeholders cs args)"
  by pat_completeness auto
termination
proof (relation "measure (\<lambda>(t, args). length t)", simp_all)
  have shorter: "length rest < Suc (length cs)" if "span_brace cs = Some (key, rest)"
    for cs key rest
    using that by (induction cs arbitrary: key rest) (auto split: if_splits option.splits)
  fix cs :: string and x2 key rest
  assume "span_brace cs = Some x2" and "(key, rest) = x2"
  then show "length rest < Suc (length cs)"
    using shorter [of cs key rest] by simp
qed

definition format :: "jsval \<Rightarrow> jsobj \<Rightarrow> error + string" where
  "format template args =
     (case template of
        JStr t \<Rightarrow> Inr (replace_placeholders t args)
      | _ \<Rightarrow> Inl TypeError)"

section \<open>The record codec\<close>

text \<open>
  A \<open>Record\<close> instance is the object \<open>this\<close>: its own properties \<open>zone_\<close>, \<open>type\<close> and
  \<open>metadata\<close>, and whatever the constructor copies onto it. The methods \<open>toJSON\<close> and
  \<open>toString\<close> live on the prototype and take \<open>this\<close> as their argument. A method call
  \<^verbatim>\<open>this.toJSON()\<close> looks the method up on the object first: an own property of that name,
  which the constructor copies from a metadata field \<open>toJSON\<close>, stands in front of the
  prototype's method (\<open>call_toJSON\<close> below). The type is a string, as documented
  (\<^verbatim>\<open>@param {string} type\<close>).
\<close>

subsection \<open>\<^verbatim>\<open>Record.prototype.toJSON\<close>\<close>

text \<open>
  \<^verbatim>\<open>
  var recordObject = extend({}, this.metadata, { type: this.type.toUpperCase() });
  if (recordObject.data) {
    recordObject.rrdatas = arrify(recordObject.data);
    delete recordObject.data;
  }
  return recordObject;
  \<close>
  \<^verbatim>\<open>this.type.toUpperCase()\<close> throws a \<open>TypeError\<close> if \<^verbatim>\<open>this.type\<close> is not a string.
\<close>

definition toJSON :: "jsobj \<Rightarrow> error + jsobj" where
  "toJSON this =
     (case getProperty this ''type'' of
        JStr type \<Rightarrow>
          (let recordObject =
                 extend [] [getProperty this ''metadata'', JObj [(''type'', JStr (toUpperCase type))]]
           in Inr (if truthy (getProperty recordObject ''data'')
                   then deleteProperty
                          (setProperty recordObject ''rrdatas''
                             (JArr (arrify (getProperty recordObject ''data''))))
                          ''data''
                   else recordObject))
      | _ \<Rightarrow> Inl TypeError)"

subsection \<open>The constructor\<close>

text \<open>
  \<^verbatim>\<open>
  this.zone_ = zone;
  this.type = type;
  this.metadata = metadata;
  extend(this, this.toJSON());
  if (this.rrdatas) {
    this.data = this.rrdatas;
    delete this.rrdatas;
  }
  \<close>
\<close>

definition Record :: "jsval \<Rightarrow> string \<Rightarrow> jsval \<Rightarrow> error + jsobj" where
  "Record zone type metadata =
     (let this = [(''zone_'', zone), (''type'', JStr type), (''metadata'', metadata)] in
      case toJSON this of
        Inl e \<Rightarrow> Inl e
      | Inr json \<Rightarrow>
          (let this = extend this [JObj json] in
           Inr (if truthy (getProperty this ''rrdatas'')
                then deleteProperty
                       (setProperty this ''data'' (getProperty this ''rrdatas''))
                       ''rrdatas''
                else this)))"

subsection \<open>\<^verbatim>\<open>Record.fromZoneRecord_\<close>\<close>

text \<open>
  \<^verbatim>\<open>
  var metadata = {
    data: format(typeToZoneFormat[type.toLowerCase()], bindData),
    name: bindData.name,
    ttl: bindData.ttl,
  };
  return new Record(zone, type, metadata);
  \<close>
  \<open>bindData\<close> is an object (\<^verbatim>\<open>@param {object} bindData\<close>). The function is \<open>fromZoneRecord\<close>
  here, a name cannot end in an underscore.
\<close>

definition typeToZoneFormat :: "(string \<times> string) list" where
  "typeToZoneFormat =
     [(''a'', ''{ip}''),
      (''aaaa'', ''{ip}''),
      (''cname'', ''{alias}''),
      (''mx'', ''{preference} {host}''),
      (''ns'', ''{host}''),
      (''soa'', ''{mname} {rname} {serial} {retry} {refresh} {expire} {minimum}''),
      (''spf'', ''{data}''),
      (''srv'', ''{priority} {weight} {port} {target}''),
      (''txt'', ''{txt}'')]"

text \<open>
  \<^verbatim>\<open>typeToZoneFormat[type.toLowerCase()]\<close> is \<open>undefined\<close> for a key the table does not
  have (for the two lower-case names every object inherits, \<open>constructor\<close> and
  \<open>__proto__\<close>, it is a value without a \<open>replace\<close> method, and \<open>format\<close> throws the same
  \<open>TypeError\<close>).
\<close>

definition fromZoneRecord :: "jsval \<Rightarrow> string \<Rightarrow> jsobj \<Rightarrow> error + jsobj" where
  "fromZoneRecord zone type bindData =
     (case format (case map_of typeToZoneFormat (toLowerCase type) of
                     None \<Rightarrow> JUndefined
                   | Some t \<Rightarrow> JStr t) bindData of
        Inl e \<Rightarrow> Inl e
      | Inr d \<Rightarrow>
          Record zone type
            (JObj [(''data'', JStr d),
                   (''name'', getProperty bindData ''name''),
                   (''ttl'', getProperty bindData ''ttl'')]))"

subsection \<open>\<^verbatim>\<open>Record.prototype.toString\<close>\<close>

text \<open>
  \<^verbatim>\<open>
  var json = this.toJSON();
  return (json.rrdatas || [{}])
    .map(function(data) {
      json.rrdata = data;
      return format('{name} {ttl} IN {type} {rrdata}', json);
    })
    .join('\n');
  \<close>
\<close>

text \<open>
  \<open>map_callback\<close> is the function passed to \<^verbatim>\<open>map\<close>: it assigns \<^verbatim>\<open>json.rrdata\<close> and formats
  the line from the updated \<open>json\<close>, which \<open>render_lines\<close> threads through the entries. A
  truthy \<open>rrdatas\<close> that is not an array has no \<open>map\<close> method.
\<close>

text \<open>
  The call \<^verbatim>\<open>this.toJSON()\<close>. Property values are data, none of them is a function: if the
  record has an own property \<open>toJSON\<close>, the call throws a \<open>TypeError\<close> (\<^verbatim>\<open>this.toJSON is not a
  function\<close>); otherwise the method of the prototype runs. In the constructor the call comes
  before anything is copied onto the new object, which has no such property then.
\<close>

definition call_toJSON :: "jsobj \<Rightarrow> error + jsobj" where
  "call_toJSON this = (if hasOwn this ''toJSON'' then Inl TypeError else toJSON this)"

definition map_callback :: "jsobj \<Rightarrow> jsval \<Rightarrow> jsobj \<times> (error + string)" where
  "map_callback json data =
     (let json = setProperty json ''rrdata'' data in
      (json, format (JStr ''{name} {ttl} IN {type} {rrdata}'') json))"

fun render_lines :: "jsobj \<Rightarrow> jsval list \<Rightarrow> error + string list" where
  "render_lines json [] = Inr []"
| "render_lines json (data # rest) =
     (case map_callback json data of
        (json, Inl e) \<Rightarrow> Inl e
      | (json, Inr line) \<Rightarrow>
          (case render_lines json rest of
             Inl e \<Rightarrow> Inl e
           | Inr lines \<Rightarrow> Inr (line # lines)))"

definition toString :: "jsobj \<Rightarrow> error + string" where
  "toString this =
     (case call_toJSON this of
        Inl e \<Rightarrow> Inl e
      | Inr json \<Rightarrow>
          (case (if truthy (getProperty json ''rrdatas'') then getProperty json ''rrdatas''
                 else JArr [JObj []]) of
             JArr rrdatas \<Rightarrow>
               (case render_lines json rrdatas of
                  Inl e \<Rightarrow> Inl e
                | Inr lines \<Rightarrow> Inr (join [CHR 0x0A] lines))
           | _ \<Rightarrow> Inl TypeError))"

section \<open>\<^verbatim>\<open>toJSON\<close> on an explicit store\<close>

text \<open>
  Whether \<open>toJSON\<close> changes the record it is called on cannot be seen on values: there
  objects are copied, not shared. For that question the method is modelled a second time,
  on a store. Objects and arrays are cells at addresses, a property holds a primitive value
  or a reference to a cell, an object or array literal allocates a new cell at the end of
  the store, and an assignment to a property or a \<^verbatim>\<open>delete\<close> rewrites the cell of the object.
  A read of a property at an address that holds no object gives \<open>undefined\<close>.
\<close>

type_synonym addr = nat

datatype hval =
    HUndefined
  | HNull
  | HBool bool
  | HNum int
  | HStr string
  | HRef addr

datatype cell =
    ObjectCell "(string \<times> hval) list"
  | ArrayCell "hval list"

type_synonym heap = "cell list"

definition cell_at :: "heap \<Rightarrow> addr \<Rightarrow> cell option" where
  "cell_at h a = (if a < length h then Some (h ! a) else None)"

definition alloc :: "heap \<Rightarrow> cell \<Rightarrow> heap \<times> addr" where
  "alloc h c = (h @ [c], length h)"

definition store_truthy :: "hval \<Rightarrow> bool" where
  "store_truthy v =
     (case v of
        HUndefined \<Rightarrow> False
      | HNull \<Rightarrow> False
      | HBool b \<Rightarrow> b
      | HNum n \<Rightarrow> n \<noteq> 0
      | HStr s \<Rightarrow> s \<noteq> []
      | HRef a \<Rightarrow> True)"

definition prop_of :: "(string \<times> hval) list \<Rightarrow> string \<Rightarrow> hval" where
  "prop_of ps name = (case map_of ps name of None \<Rightarrow> HUndefined | Some v \<Rightarrow> v)"

definition store_get :: "heap \<Rightarrow> addr \<Rightarrow> string \<Rightarrow> hval" where
  "store_get h a name =
     (case cell_at h a of Some (ObjectCell ps) \<Rightarrow> prop_of ps name | _ \<Rightarrow> HUndefined)"

definition store_set :: "heap \<Rightarrow> addr \<Rightarrow> string \<Rightarrow> hval \<Rightarrow> heap" where
  "store_set h a name v =
     (case cell_at h a of
        Some (ObjectCell ps) \<Rightarrow> h[a := ObjectCell (AList.update name v ps)]
      | _ \<Rightarrow> h)"

definition store_delete :: "heap \<Rightarrow> addr \<Rightarrow> string \<Rightarrow> heap" where
  "store_delete h a name =
     (case cell_at h a of
        Some (ObjectCell ps) \<Rightarrow> h[a := ObjectCell (AList.delete name ps)]
      | _ \<Rightarrow> h)"

text \<open>
  \<^verbatim>\<open>extend(target, options)\<close> on the store: the properties of the source are read, and every
  value that is neither \<open>undefined\<close> nor the target itself is assigned to the target's
  cell.
\<close>

definition store_props :: "heap \<Rightarrow> hval \<Rightarrow> (string \<times> hval) list" where
  "store_props h options =
     (case options of
        HRef a \<Rightarrow>
          (case cell_at h a of
             Some (ObjectCell ps) \<Rightarrow> map (\<lambda>name. (name, prop_of ps name)) (map fst ps)
           | Some (ArrayCell xs) \<Rightarrow> zip (index_names (length xs)) xs
           | None \<Rightarrow> [])
      | HStr s \<Rightarrow> zip (index_names (length s)) (map (\<lambda>c. HStr [c]) s)
      | _ \<Rightarrow> [])"

definition store_extend_step :: "addr \<Rightarrow> heap \<Rightarrow> string \<times> hval \<Rightarrow> heap" where
  "store_extend_step target h p =
     (case p of (name, copy) \<Rightarrow>
        if HRef target \<noteq> copy \<and> copy \<noteq> HUndefined then store_set h target name copy else h)"

definition store_extend1 :: "heap \<Rightarrow> addr \<Rightarrow> hval \<Rightarrow> heap" where
  "store_extend1 h target options = foldl (store_extend_step target) h (store_props h options)"

text \<open>
  \<^verbatim>\<open>arrify\<close> returns the array it is given, the same cell, and allocates a new array only
  for a value that is not an array.
\<close>

definition store_arrify :: "heap \<Rightarrow> hval \<Rightarrow> heap \<times> addr" where
  "store_arrify h val =
     (case val of
        HNull \<Rightarrow> alloc h (ArrayCell [])
      | HUndefined \<Rightarrow> alloc h (ArrayCell [])
      | HRef a \<Rightarrow>
          (case cell_at h a of
             Some (ArrayCell xs) \<Rightarrow> (h, a)
           | _ \<Rightarrow> alloc h (ArrayCell [val]))
      | _ \<Rightarrow> alloc h (ArrayCell [val]))"

text \<open>
  \<open>toJSON\<close>: the empty target and the object holding the upper-cased type are allocated,
  the target is extended from the metadata and from that object, and a truthy \<open>data\<close> is
  replaced by \<open>rrdatas\<close>. The result is the address of the target, with the new store.
\<close>

definition toJSON_store :: "heap \<Rightarrow> addr \<Rightarrow> error + (addr \<times> heap)" where
  "toJSON_store h this =
     (case store_get h this ''type'' of
        HStr type \<Rightarrow>
          (let (h, recordObject) = alloc h (ObjectCell []);
               (h, typeObject) = alloc h (ObjectCell [(''type'', HStr (toUpperCase type))]);
               h = store_extend1 h recordObject (store_get h this ''metadata'');
               h = store_extend1 h recordObject (HRef typeObject);
               data = store_get h recordObject ''data''
           in if store_truthy data then
                (let (h, rrdatas) = store_arrify h data;
                     h = store_set h recordObject ''rrdatas'' (HRef rrdatas);
                     h = store_delete h recordObject ''data''
                 in Inr (recordObject, h))
              else Inr (recordObject, h))
      | _ \<Rightarrow> Inl TypeError)"

text \<open>
  \<open>reify n h v\<close> is the value \<open>v\<close> denotes in the store \<open>h\<close>, as a tree, followed through
  at most \<open>n\<close> references. Two values are structurally equal when they denote the same
  tree at every depth.
\<close>

fun reify :: "nat \<Rightarrow> heap \<Rightarrow> hval \<Rightarrow> jsval" where
  "reify n h HUndefined = JUndefined"
| "reify n h HNull = JNull"
| "reify n h (HBool b) = JBool b"
| "reify n h (HNum i) = JNum i"
| "reify n h (HStr s) = JStr s"
| "reify 0 h (HRef a) = JUndefined"
| "reify (Suc n) h (HRef a) =
     (case cell_at h a of
        None \<Rightarrow> JUndefined
      | Some (ObjectCell ps) \<Rightarrow> JObj (map (\<lambda>p. (fst p, reify n h (snd p))) ps)
      | Some (ArrayCell xs) \<Rightarrow> JArr (map (reify n h) xs))"

text \<open>
  A store is closed when every reference in it points to one of its cells, as every
  reference of a running program does.
\<close>

definition refs_of :: "cell \<Rightarrow> hval list" where
  "refs_of c = (case c of ObjectCell ps \<Rightarrow> map snd ps | ArrayCell xs \<Rightarrow> xs)"

definition valid_ref :: "heap \<Rightarrow> hval \<Rightarrow> bool" where
  "valid_ref h v = (case v of HRef a \<Rightarrow> a < length h | _ \<Rightarrow> True)"

definition heap_closed :: "heap \<Rightarrow> bool" where
  "heap_closed h = list_all (\<lambda>c. list_all (valid_ref h) (refs_of c)) h"

text \<open>
  What a call of \<open>toJSON\<close> allocates, written out: \<open>prop_step\<close> is one assignment of
  \<open>extend\<close> on the target's property list, \<open>record_props\<close> the properties of the target after
  both sources, \<open>new_cells\<close> the cells the call adds to the store.
\<close>

definition prop_step :: "addr \<Rightarrow> (string \<times> hval) list \<Rightarrow> string \<times> hval \<Rightarrow> (string \<times> hval) list" where
  "prop_step target ps p =
     (case p of (name, copy) \<Rightarrow>
        if HRef target \<noteq> copy \<and> copy \<noteq> HUndefined then AList.update name copy ps else ps)"

definition record_props :: "heap \<Rightarrow> addr \<Rightarrow> string \<Rightarrow> (string \<times> hval) list" where
  "record_props h this type =
     AList.update ''type'' (HStr (toUpperCase type))
       (foldl (prop_step (length h)) [] (store_props h (store_get h this ''metadata'')))"

definition new_cells :: "heap \<Rightarrow> addr \<Rightarrow> string \<Rightarrow> cell list" where
  "new_cells h this type =
     (let ps = record_props h this type;
          data = prop_of ps ''data'';
          typeObject = ObjectCell [(''type'', HStr (toUpperCase type))];
          wrapped = [ObjectCell (AList.delete ''data'' (AList.update ''rrdatas'' (HRef (length h + 2)) ps)),
                     typeObject, ArrayCell [data]]
      in if store_truthy data then
           (case data of
              HRef d \<Rightarrow>
                (case cell_at h d of
                   Some (ArrayCell xs) \<Rightarrow>
                     [ObjectCell (AList.delete ''data'' (AList.update ''rrdatas'' (HRef d) ps)),
                      typeObject]
                 | _ \<Rightarrow> wrapped)
            | _ \<Rightarrow> wrapped)
         else [ObjectCell ps, typeObject])"

section \<open>The format table as the specification gives it\<close>

text \<open>
  The specification lists, for each supported type, the fields of its template in their
  fixed order; the substituted string is these fields separated by single spaces.
  \<open>spec_format_table\<close> follows that table, to be compared with \<open>typeToZoneFormat\<close> and the
  substitution of the source. \<open>placeholder\<close> is the text of a placeholder in a template.
\<close>

definition spec_format_table :: "(string \<times> string list) list" where
  "spec_format_table =
     [(''a'', [''ip'']),
      (''aaaa'', [''ip'']),
      (''cname'', [''alias'']),
      (''mx'', [''preference'', ''host'']),
      (''ns'', [''host'']),
      (''soa'', [''mname'', ''rname'', ''serial'', ''retry'', ''refresh'', ''expire'', ''minimum'']),
      (''spf'', [''data'']),
      (''srv'', [''priority'', ''weight'', ''port'', ''target'']),
      (''txt'', [''txt''])]"

definition placeholder :: "string \<Rightarrow> string" where
  "placeholder key = CHR ''{'' # key @ ''}''"

section \<open>Properties of the property operations and of \<^verbatim>\<open>extend\<close>\<close>

lemma getProperty_setProperty:
  "getProperty (setProperty obj k v) name = (if name = k then v else getProperty obj name)"
  by (simp add: getProperty_def setProperty_def update_conv')

lemma hasOwn_setProperty:
  "hasOwn (setProperty obj k v) name = (name = k \<or> hasOwn obj name)"
  by (simp add: hasOwn_def setProperty_def update_conv')

lemma getProperty_deleteProperty:
  "getProperty (deleteProperty obj k) name = (if name = k then JUndefined else getProperty obj name)"
  by (simp add: getProperty_def deleteProperty_def delete_conv')

lemma hasOwn_deleteProperty:
  "hasOwn (deleteProperty obj k) name = (name \<noteq> k \<and> hasOwn obj name)"
  by (simp add: hasOwn_def deleteProperty_def delete_conv')

lemma getProperty_defined_hasOwn: "getProperty obj name \<noteq> JUndefined \<Longrightarrow> hasOwn obj name"
  by (auto simp: getProperty_def hasOwn_def split: option.splits)

lemma foldl_extend_step_keys:
  "getProperty (foldl extend_step target (map (\<lambda>name. (name, f name)) ks)) k =
     (if k \<in> set ks \<and> f k \<noteq> JUndefined then f k else getProperty target k)"
  by (induction ks arbitrary: target) (auto simp: extend_step_def getProperty_setProperty)

lemma foldl_extend_step_keys_has:
  "hasOwn (foldl extend_step target (map (\<lambda>name. (name, f name)) ks)) k =
     (hasOwn target k \<or> (k \<in> set ks \<and> f k \<noteq> JUndefined))"
  by (induction ks arbitrary: target) (auto simp: extend_step_def hasOwn_setProperty)

lemma getProperty_in_keys: "getProperty ps k \<noteq> JUndefined \<Longrightarrow> k \<in> fst ` set ps"
  by (auto simp: getProperty_def split: option.splits dest: map_of_SomeD intro: rev_image_eqI)

lemma extend1_obj:
  "extend1 target (JObj ps) =
     foldl extend_step target (map (\<lambda>name. (name, getProperty ps name)) (map fst ps))"
  by (simp add: extend1_def enumerate_props_def del: map_map)

lemma getProperty_extend1_obj:
  "getProperty (extend1 target (JObj ps)) k =
     (if getProperty ps k \<noteq> JUndefined then getProperty ps k else getProperty target k)"
  unfolding extend1_obj foldl_extend_step_keys
  using getProperty_in_keys [of ps k] by simp

lemma hasOwn_extend1_obj:
  "hasOwn (extend1 target (JObj ps)) k = (hasOwn target k \<or> getProperty ps k \<noteq> JUndefined)"
  unfolding extend1_obj foldl_extend_step_keys_has
  using getProperty_in_keys [of ps k] by auto

lemmas prop_simps = getProperty_setProperty hasOwn_setProperty getProperty_deleteProperty
  hasOwn_deleteProperty getProperty_extend1_obj hasOwn_extend1_obj

lemma getProperty_Nil: "getProperty [] k = JUndefined"
  by (simp add: getProperty_def)

lemma hasOwn_Nil: "\<not> hasOwn [] k"
  by (simp add: hasOwn_def)

lemma getProperty_Cons:
  "getProperty ((k', v) # ps) k = (if k = k' then v else getProperty ps k)"
  by (simp add: getProperty_def)

lemma hasOwn_Cons: "hasOwn ((k', v) # ps) k = (k = k' \<or> hasOwn ps k)"
  by (simp add: hasOwn_def)

lemma extend_two: "extend target [a, b] = extend1 (extend1 target a) b"
  by (simp add: extend_def)

lemma extend_one: "extend target [a] = extend1 target a"
  by (simp add: extend_def)

text \<open>
  \<open>toJSON\<close> does not fail on a record whose type is a string, and the type it returns is
  upper-cased, whatever the metadata is.
\<close>

lemma toJSON_type:
  assumes "getProperty this ''type'' = JStr ty"
  shows "\<exists>json. toJSON this = Inr json \<and> getProperty json ''type'' = JStr (toUpperCase ty)"
  using assms
  by (simp add: toJSON_def Let_def extend_two prop_simps getProperty_Cons getProperty_Nil)

lemma recordObject_get:
  "getProperty (extend [] [JObj m, JObj [(''type'', JStr u)]]) k =
     (if k = ''type'' then JStr u else getProperty m k)"
  by (simp add: extend_two prop_simps getProperty_Cons getProperty_Nil)

lemma recordObject_has:
  "hasOwn (extend [] [JObj m, JObj [(''type'', JStr u)]]) k =
     (k = ''type'' \<or> getProperty m k \<noteq> JUndefined)"
  by (auto simp add: extend_two prop_simps getProperty_Cons getProperty_Nil hasOwn_Nil)

lemma toJSON_obj:
  assumes "getProperty this ''type'' = JStr ty" and "getProperty this ''metadata'' = JObj m"
  shows "toJSON this =
     Inr (if truthy (getProperty m ''data'')
          then deleteProperty
                 (setProperty (extend [] [JObj m, JObj [(''type'', JStr (toUpperCase ty))]])
                    ''rrdatas'' (JArr (arrify (getProperty m ''data''))))
                 ''data''
          else extend [] [JObj m, JObj [(''type'', JStr (toUpperCase ty))]])"
  using assms by (simp add: toJSON_def Let_def recordObject_get)

lemma toJSON_obj_get:
  assumes "getProperty this ''type'' = JStr ty" and "getProperty this ''metadata'' = JObj m"
    and "toJSON this = Inr json"
  shows "getProperty json k =
     (if k = ''type'' then JStr (toUpperCase ty)
      else if truthy (getProperty m ''data'') then
        (if k = ''rrdatas'' then JArr (arrify (getProperty m ''data''))
         else if k = ''data'' then JUndefined else getProperty m k)
      else getProperty m k)"
proof (cases "truthy (getProperty m ''data'')")
  case True
  with assms(3) toJSON_obj [OF assms(1,2)] show ?thesis
    by (auto simp add: getProperty_setProperty getProperty_deleteProperty recordObject_get)
next
  case False
  with assms(3) toJSON_obj [OF assms(1,2)] show ?thesis
    by (auto simp add: recordObject_get)
qed

lemma toJSON_obj_has:
  assumes "getProperty this ''type'' = JStr ty" and "getProperty this ''metadata'' = JObj m"
    and "toJSON this = Inr json"
  shows "hasOwn json k =
     (if k = ''type'' then True
      else if truthy (getProperty m ''data'') then
        (if k = ''rrdatas'' then True
         else if k = ''data'' then False else getProperty m k \<noteq> JUndefined)
      else getProperty m k \<noteq> JUndefined)"
proof (cases "truthy (getProperty m ''data'')")
  case True
  with assms(3) toJSON_obj [OF assms(1,2)] show ?thesis
    by (auto simp add: hasOwn_setProperty hasOwn_deleteProperty recordObject_has)
next
  case False
  with assms(3) toJSON_obj [OF assms(1,2)] show ?thesis
    by (auto simp add: recordObject_has)
qed

section \<open>Properties of the constructor\<close>

lemma of_char_toUpperCase_char:
  "toUpperCase_char (toUpperCase_char c) = toUpperCase_char c"
proof -
  have "(of_char (char_of (of_char c - 32 :: nat)) :: nat) = (of_char c - 32) mod 256"
    by (simp only: of_char_of)
  then show ?thesis
    by (auto simp add: toUpperCase_char_def Let_def)
qed

lemma toUpperCase_idem: "toUpperCase (toUpperCase s) = toUpperCase s"
  by (simp add: toUpperCase_def of_char_toUpperCase_char)

text \<open>
  Upper-casing, character by character: the letters \<open>a\<close> to \<open>z\<close> become \<open>A\<close> to \<open>Z\<close>, every
  other character stays, and no result is a lower-case letter.
\<close>

lemma toUpperCase_char_table:
  "map toUpperCase_char ''abcdefghijklmnopqrstuvwxyz'' = ''ABCDEFGHIJKLMNOPQRSTUVWXYZ''"
  by code_simp

lemma lower_case_codes:
  "map char_of [97 ..< 123 :: nat] = ''abcdefghijklmnopqrstuvwxyz''"
  by code_simp

lemma toUpperCase_char_letter:
  assumes "j < 26" and "c = ''abcdefghijklmnopqrstuvwxyz'' ! j"
  shows "toUpperCase_char c = ''ABCDEFGHIJKLMNOPQRSTUVWXYZ'' ! j"
proof -
  have "map toUpperCase_char ''abcdefghijklmnopqrstuvwxyz'' ! j =
      toUpperCase_char (''abcdefghijklmnopqrstuvwxyz'' ! j)"
    using assms(1) by (intro nth_map) simp
  then show ?thesis
    using assms(2) by (simp only: toUpperCase_char_table)
qed

lemma toUpperCase_char_other:
  assumes "c \<notin> set ''abcdefghijklmnopqrstuvwxyz''"
  shows "toUpperCase_char c = c"
proof -
  let ?n = "of_char c :: nat"
  have "c \<in> set ''abcdefghijklmnopqrstuvwxyz''" if "97 \<le> ?n" "?n \<le> 122"
  proof -
    from that have "?n \<in> set [97 ..< 123]"
      by (simp only: set_upt atLeastLessThan_iff) simp
    then have "char_of ?n \<in> set (map char_of [97 ..< 123 :: nat])"
      by (simp only: set_map) (rule imageI)
    then show ?thesis
      by (simp only: lower_case_codes char_of_char)
  qed
  then have "\<not> (97 \<le> ?n \<and> ?n \<le> 122)"
    using assms by blast
  then show ?thesis
    by (simp only: toUpperCase_char_def Let_def if_False)
qed

lemma toUpperCase_char_no_lower:
  "toUpperCase_char c \<notin> set ''abcdefghijklmnopqrstuvwxyz''"
proof (cases "c \<in> set ''abcdefghijklmnopqrstuvwxyz''")
  case True
  then obtain j where "j < length ''abcdefghijklmnopqrstuvwxyz''"
    and "''abcdefghijklmnopqrstuvwxyz'' ! j = c"
    by (auto simp only: in_set_conv_nth)
  then have j: "j < 26" "c = ''abcdefghijklmnopqrstuvwxyz'' ! j"
    by simp_all
  have "''ABCDEFGHIJKLMNOPQRSTUVWXYZ'' ! j \<in> set ''ABCDEFGHIJKLMNOPQRSTUVWXYZ''"
    using j(1) by (intro nth_mem) simp
  moreover have "set ''ABCDEFGHIJKLMNOPQRSTUVWXYZ'' \<inter> set ''abcdefghijklmnopqrstuvwxyz'' = {}"
    by simp
  ultimately show ?thesis
    unfolding toUpperCase_char_letter [OF j] by blast
next
  case False
  show ?thesis
    unfolding toUpperCase_char_other [OF False] by (rule False)
qed

lemma Record_unfold:
  assumes "toJSON [(''zone_'', zone), (''type'', JStr ty), (''metadata'', md)] = Inr json"
  shows "Record zone ty md =
     Inr (if truthy (getProperty json ''rrdatas'')
          then deleteProperty
                 (setProperty (extend1 [(''zone_'', zone), (''type'', JStr ty), (''metadata'', md)] (JObj json))
                    ''data'' (getProperty json ''rrdatas''))
                 ''rrdatas''
          else extend1 [(''zone_'', zone), (''type'', JStr ty), (''metadata'', md)] (JObj json))"
  using assms
  by (simp add: Record_def Let_def extend_one getProperty_extend1_obj getProperty_Cons getProperty_Nil)

lemma Record_get:
  assumes "toJSON [(''zone_'', zone), (''type'', JStr ty), (''metadata'', md)] = Inr json"
    and "Record zone ty md = Inr r"
  shows "getProperty r k =
     (if truthy (getProperty json ''rrdatas'') then
        (if k = ''rrdatas'' then JUndefined
         else if k = ''data'' then getProperty json ''rrdatas''
         else if getProperty json k \<noteq> JUndefined then getProperty json k
         else getProperty [(''zone_'', zone), (''type'', JStr ty), (''metadata'', md)] k)
      else if getProperty json k \<noteq> JUndefined then getProperty json k
      else getProperty [(''zone_'', zone), (''type'', JStr ty), (''metadata'', md)] k)"
  using assms(2) unfolding Record_unfold [OF assms(1)]
  by (auto simp add: getProperty_setProperty getProperty_deleteProperty getProperty_extend1_obj)

lemma Record_has:
  assumes "toJSON [(''zone_'', zone), (''type'', JStr ty), (''metadata'', md)] = Inr json"
    and "Record zone ty md = Inr r"
  shows "hasOwn r k =
     (if truthy (getProperty json ''rrdatas'') then
        (if k = ''rrdatas'' then False
         else if k = ''data'' then True
         else getProperty json k \<noteq> JUndefined \<or> k \<in> {''zone_'', ''type'', ''metadata''})
      else getProperty json k \<noteq> JUndefined \<or> k \<in> {''zone_'', ''type'', ''metadata''})"
proof (cases "truthy (getProperty json ''rrdatas'')")
  case True
  with assms(2) Record_unfold [OF assms(1)] have
    "r = deleteProperty
           (setProperty (extend1 [(''zone_'', zone), (''type'', JStr ty), (''metadata'', md)] (JObj json))
              ''data'' (getProperty json ''rrdatas''))
           ''rrdatas''"
    by simp
  with True show ?thesis
    by (auto simp add: hasOwn_setProperty hasOwn_deleteProperty hasOwn_extend1_obj hasOwn_Cons hasOwn_Nil)
next
  case False
  with assms(2) Record_unfold [OF assms(1)] have
    "r = extend1 [(''zone_'', zone), (''type'', JStr ty), (''metadata'', md)] (JObj json)"
    by simp
  with False show ?thesis
    by (auto simp add: hasOwn_extend1_obj hasOwn_Cons hasOwn_Nil)
qed

lemma toJSON_new:
  "\<exists>json. toJSON [(''zone_'', zone), (''type'', JStr ty), (''metadata'', md)] = Inr json
      \<and> getProperty json ''type'' = JStr (toUpperCase ty)"
  by (rule toJSON_type) (simp add: getProperty_Cons)

lemma arrify_simps:
  "arrify (JStr s) = [JStr s]" "arrify (JArr xs) = xs"
  by (simp_all add: arrify_def)

lemma truthy_simps:
  "truthy (JArr xs)" "truthy (JStr s) = (s \<noteq> [])" "\<not> truthy JUndefined"
  by (simp_all add: truthy_def)

lemma new_this_props:
  "getProperty [(''zone_'', zone), (''type'', JStr ty), (''metadata'', md)] ''type'' = JStr ty"
  "getProperty [(''zone_'', zone), (''type'', JStr ty), (''metadata'', md)] ''metadata'' = md"
  "getProperty [(''zone_'', zone), (''type'', JStr ty), (''metadata'', md)] ''data'' = JUndefined"
  "getProperty [(''zone_'', zone), (''type'', JStr ty), (''metadata'', md)] ''rrdatas'' = JUndefined"
  by (simp_all add: getProperty_Cons getProperty_Nil)

text \<open>What the constructor leaves in \<open>data\<close> and \<open>rrdatas\<close>, for an object as metadata.\<close>

lemma Record_obj:
  obtains json r where
    "toJSON [(''zone_'', zone), (''type'', JStr ty), (''metadata'', JObj m)] = Inr json"
    "Record zone ty (JObj m) = Inr r"
    "getProperty json ''rrdatas'' =
       (if truthy (getProperty m ''data'') then JArr (arrify (getProperty m ''data''))
        else getProperty m ''rrdatas'')"
    "getProperty json ''data'' =
       (if truthy (getProperty m ''data'') then JUndefined else getProperty m ''data'')"
proof -
  obtain json where j: "toJSON [(''zone_'', zone), (''type'', JStr ty), (''metadata'', JObj m)] = Inr json"
    using toJSON_new by blast
  obtain r where r: "Record zone ty (JObj m) = Inr r"
    using Record_unfold [OF j] by simp
  note g = toJSON_obj_get [OF new_this_props(1) new_this_props(2) j]
  show thesis
    by (rule that [OF j r]) (simp_all add: g)
qed

section \<open>Properties of the zone-file formats\<close>

text \<open>
  For every entry of the specification's table the source's table has a template, and
  substituting into it gives the fields' replacements joined by spaces.
\<close>

lemma format_table_agrees:
  assumes "map_of spec_format_table ty = Some fields"
  shows "\<exists>t. map_of typeToZoneFormat ty = Some t
     \<and> (\<forall>args. replace_placeholders t args =
           join '' '' (map (\<lambda>key. replacer args (placeholder key) key) fields))"
  using assms
  by (auto simp add: spec_format_table_def typeToZoneFormat_def placeholder_def split: if_splits)

lemma join_nonempty: "x \<in> set xs \<Longrightarrow> x \<noteq> [] \<Longrightarrow> join sep xs \<noteq> []"
  by (induction sep xs rule: join.induct) auto

text \<open>
  \<open>fromZoneRecord_\<close> has no handler of its own: an error of \<open>format\<close> is the error of the
  call.
\<close>

lemma fromZoneRecord_propagates:
  assumes "format (case map_of typeToZoneFormat (toLowerCase type) of
                     None \<Rightarrow> JUndefined
                   | Some t \<Rightarrow> JStr t) bindData = Inl e"
  shows "fromZoneRecord zone type bindData = Inl e"
  using assms by (simp add: fromZoneRecord_def)

lemma fromZoneRecord_supported:
  assumes "map_of typeToZoneFormat (toLowerCase type) = Some t"
  shows "fromZoneRecord zone type bindData =
     Record zone type
       (JObj [(''data'', JStr (replace_placeholders t bindData)),
              (''name'', getProperty bindData ''name''),
              (''ttl'', getProperty bindData ''ttl'')])"
  using assms by (simp add: fromZoneRecord_def format_def)

text \<open>
  The record built from the metadata \<open>fromZoneRecord_\<close> assembles.
\<close>

lemma Record_zone_metadata:
  "\<exists>r. Record zone type (JObj [(''data'', JStr d), (''name'', name), (''ttl'', ttl)]) = Inr r
     \<and> getProperty r ''data'' = (if d = [] then JStr [] else JArr [JStr d])
     \<and> getProperty r ''name'' = name
     \<and> getProperty r ''ttl'' = ttl"
proof -
  let ?m = "[(''data'', JStr d), (''name'', name), (''ttl'', ttl)]"
  obtain json r where j: "toJSON [(''zone_'', zone), (''type'', JStr type), (''metadata'', JObj ?m)] = Inr json"
    and r: "Record zone type (JObj ?m) = Inr r"
    and rr: "getProperty json ''rrdatas'' =
       (if truthy (getProperty ?m ''data'') then JArr (arrify (getProperty ?m ''data''))
        else getProperty ?m ''rrdatas'')"
    and dd: "getProperty json ''data'' =
       (if truthy (getProperty ?m ''data'') then JUndefined else getProperty ?m ''data'')"
    by (rule Record_obj)
  note g = toJSON_obj_get [OF new_this_props(1) new_this_props(2) j]
  have m: "getProperty ?m ''data'' = JStr d" "getProperty ?m ''rrdatas'' = JUndefined"
     "getProperty ?m ''name'' = name" "getProperty ?m ''ttl'' = ttl"
    by (simp_all add: getProperty_Cons getProperty_Nil)
  have rr': "getProperty json ''rrdatas'' = (if d = [] then JUndefined else JArr [JStr d])"
    using rr unfolding m by (simp add: truthy_simps arrify_simps)
  have dd': "getProperty json ''data'' = (if d = [] then JStr [] else JUndefined)"
    using dd unfolding m by (auto simp add: truthy_simps)
  have "getProperty r ''data'' = (if d = [] then JStr [] else JArr [JStr d])"
    using Record_get [OF j r, of "''data''"] rr' dd'
    by (simp add: truthy_simps new_this_props)
  moreover have "getProperty json ''name'' = name" "getProperty json ''ttl'' = ttl"
    by (simp_all add: g m)
  then have "getProperty r ''name'' = name" "getProperty r ''ttl'' = ttl"
    using Record_get [OF j r, of "''name''"] Record_get [OF j r, of "''ttl''"]
    by (auto simp add: getProperty_Cons getProperty_Nil)
  ultimately show ?thesis using r by simp
qed

text \<open>
  The lines of \<open>toString\<close>: each entry is formatted from \<open>json\<close> with \<open>rrdata\<close> set to it.
\<close>

lemma map_callback_eq:
  "map_callback json data =
     (setProperty json ''rrdata'' data,
      Inr (replace_placeholders ''{name} {ttl} IN {type} {rrdata}'' (setProperty json ''rrdata'' data)))"
  by (simp only: map_callback_def format_def Let_def jsval.case)

lemma setProperty_twice: "setProperty (setProperty obj k v) k w = setProperty obj k w"
  by (simp add: setProperty_def)

lemma render_lines_eq:
  "render_lines json xs =
     Inr (map (\<lambda>data. replace_placeholders ''{name} {ttl} IN {type} {rrdata}''
                          (setProperty json ''rrdata'' data)) xs)"
proof (induction xs arbitrary: json)
  case Nil
  show ?case by simp
next
  case (Cons data rest)
  show ?case
    by (simp only: render_lines.simps map_callback_eq prod.case sum.case Cons.IH
        setProperty_twice list.map)
qed

lemma replacer_setProperty:
  "replacer (setProperty json k v) match key =
     (if key = k then ToString v else replacer json match key)"
  by (simp add: replacer_def hasOwn_setProperty getProperty_setProperty)

lemma zone_line:
  "replace_placeholders ''{name} {ttl} IN {type} {rrdata}'' (setProperty json ''rrdata'' data) =
     replacer json ''{name}'' ''name'' @ '' '' @ replacer json ''{ttl}'' ''ttl'' @ '' IN ''
       @ replacer json ''{type}'' ''type'' @ '' '' @ ToString data"
  by (simp add: replacer_setProperty)

lemma replacer_defined:
  "getProperty json key = JStr s \<Longrightarrow> replacer json match key = s"
  using getProperty_defined_hasOwn [of json key] by (simp add: replacer_def)

section \<open>Properties of \<^verbatim>\<open>toJSON\<close> on the store\<close>

lemma cell_at_append_old: "a < length h \<Longrightarrow> cell_at (h @ xs) a = cell_at h a"
  by (simp add: cell_at_def nth_append)

lemma cell_at_length: "cell_at (h @ c # xs) (length h) = Some c"
  by (simp add: cell_at_def)

lemma store_get_append: "a < length h \<Longrightarrow> store_get (h @ xs) a name = store_get h a name"
  by (simp add: store_get_def cell_at_append_old)

lemma store_props_append:
  "(\<And>m. v = HRef m \<Longrightarrow> m < length h) \<Longrightarrow> store_props (h @ xs) v = store_props h v"
  by (cases v) (simp_all add: store_props_def cell_at_append_old)

lemma foldl_store_extend_step:
  "foldl (store_extend_step (length h)) (h @ ObjectCell ps # xs) props =
     h @ ObjectCell (foldl (prop_step (length h)) ps props) # xs"
proof (induction props arbitrary: ps)
  case Nil
  show ?case by simp
next
  case (Cons p props)
  have "store_extend_step (length h) (h @ ObjectCell ps # xs) p =
          h @ ObjectCell (prop_step (length h) ps p) # xs"
    by (cases p) (simp add: store_extend_step_def prop_step_def store_set_def cell_at_length)
  then show ?case
    by (simp add: Cons.IH)
qed

lemma store_extend1_fresh:
  assumes "\<And>m. v = HRef m \<Longrightarrow> m < length h"
  shows "store_extend1 (h @ ObjectCell ps # xs) (length h) v =
     h @ ObjectCell (foldl (prop_step (length h)) ps (store_props h v)) # xs"
  using store_props_append [of v h "ObjectCell ps # xs"] assms
  by (simp add: store_extend1_def foldl_store_extend_step)

lemma store_extend1_typeObject:
  "store_extend1 (h @ [ObjectCell ps, ObjectCell [(''type'', HStr u)]]) (length h) (HRef (Suc (length h))) =
     h @ [ObjectCell (AList.update ''type'' (HStr u) ps), ObjectCell [(''type'', HStr u)]]"
proof -
  have "store_props (h @ [ObjectCell ps, ObjectCell [(''type'', HStr u)]]) (HRef (Suc (length h)))
      = [(''type'', HStr u)]"
    by (simp add: store_props_def cell_at_def nth_append prop_of_def)
  then show ?thesis
    using foldl_store_extend_step [of h ps "[ObjectCell [(''type'', HStr u)]]" "[(''type'', HStr u)]"]
    by (simp add: store_extend1_def prop_step_def)
qed

lemma store_set_fresh:
  "store_set (h @ ObjectCell ps # xs) (length h) name v = h @ ObjectCell (AList.update name v ps) # xs"
  by (simp add: store_set_def cell_at_length)

lemma store_delete_fresh:
  "store_delete (h @ ObjectCell ps # xs) (length h) name = h @ ObjectCell (AList.delete name ps) # xs"
  by (simp add: store_delete_def cell_at_length)

lemma store_get_fresh:
  "store_get (h @ ObjectCell ps # xs) (length h) name = prop_of ps name"
  by (simp add: store_get_def cell_at_length)

lemma store_arrify_truthy:
  assumes "store_truthy data" and "\<And>d. data = HRef d \<Longrightarrow> d < length h"
  shows "store_arrify (h @ [c1, c2]) data =
     (case data of
        HRef d \<Rightarrow>
          (case cell_at h d of
             Some (ArrayCell xs) \<Rightarrow> (h @ [c1, c2], d)
           | _ \<Rightarrow> (h @ [c1, c2, ArrayCell [data]], length h + 2))
      | _ \<Rightarrow> (h @ [c1, c2, ArrayCell [data]], length h + 2))"
  using assms
  by (cases data)
    (simp_all add: store_arrify_def store_truthy_def alloc_def cell_at_append_old
       split: option.splits cell.splits)

lemma toJSON_store_shape:
  assumes "this < length h"
    and "store_get h this ''type'' = HStr type"
    and "\<And>m. store_get h this ''metadata'' = HRef m \<Longrightarrow> m < length h"
    and "\<And>d. prop_of (record_props h this type) ''data'' = HRef d \<Longrightarrow> d < length h"
  shows "toJSON_store h this = Inr (length h, h @ new_cells h this type)"
proof -
  let ?u = "HStr (toUpperCase type)"
  let ?md = "store_get h this ''metadata''"
  let ?ps = "record_props h this type"
  let ?data = "prop_of ?ps ''data''"
  have h1: "alloc h (ObjectCell []) = (h @ [ObjectCell []], length h)"
    by (simp add: alloc_def)
  have h2: "alloc (h @ [ObjectCell []]) (ObjectCell [(''type'', ?u)]) =
      (h @ [ObjectCell [], ObjectCell [(''type'', ?u)]], Suc (length h))"
    by (simp add: alloc_def)
  have md: "store_get (h @ [ObjectCell [], ObjectCell [(''type'', ?u)]]) this ''metadata'' = ?md"
    using assms(1) by (rule store_get_append)
  have h3: "store_extend1 (h @ [ObjectCell [], ObjectCell [(''type'', ?u)]]) (length h) ?md =
      h @ [ObjectCell (foldl (prop_step (length h)) [] (store_props h ?md)), ObjectCell [(''type'', ?u)]]"
    using store_extend1_fresh [of ?md h "[]" "[ObjectCell [(''type'', ?u)]]"] assms(3) by simp
  have h4: "store_extend1
       (h @ [ObjectCell (foldl (prop_step (length h)) [] (store_props h ?md)), ObjectCell [(''type'', ?u)]])
       (length h) (HRef (Suc (length h))) =
      h @ [ObjectCell ?ps, ObjectCell [(''type'', ?u)]]"
    by (simp add: store_extend1_typeObject record_props_def)
  have d: "store_get (h @ [ObjectCell ?ps, ObjectCell [(''type'', ?u)]]) (length h) ''data'' = ?data"
    by (rule store_get_fresh)
  have run: "toJSON_store h this =
      (if store_truthy ?data then
         (let (h', rrdatas) = store_arrify (h @ [ObjectCell ?ps, ObjectCell [(''type'', ?u)]]) ?data;
              h' = store_set h' (length h) ''rrdatas'' (HRef rrdatas);
              h' = store_delete h' (length h) ''data''
          in Inr (length h, h'))
       else Inr (length h, h @ [ObjectCell ?ps, ObjectCell [(''type'', ?u)]]))"
    by (simp add: toJSON_store_def assms(2) h1 h2 md h3 h4 d Let_def)
  show ?thesis
  proof (cases "store_truthy ?data")
    case False
    then show ?thesis
      by (simp add: run new_cells_def Let_def)
  next
    case True
    note arr = store_arrify_truthy [OF True assms(4), of "ObjectCell ?ps" "ObjectCell [(''type'', ?u)]"]
    show ?thesis
    proof (cases ?data)
      case (HRef d)
      show ?thesis
      proof (cases "cell_at h d")
        case None
        with True HRef arr show ?thesis
          using store_set_fresh [of h ?ps _ "''rrdatas''"] store_delete_fresh [of h _ _ "''data''"]
          by (simp add: run new_cells_def Let_def)
      next
        case (Some c)
        with True HRef arr show ?thesis
          using store_set_fresh [of h ?ps _ "''rrdatas''"] store_delete_fresh [of h _ _ "''data''"]
          by (cases c) (simp_all add: run new_cells_def Let_def)
      qed
    qed (use True arr store_set_fresh [of h ?ps _ "''rrdatas''"] store_delete_fresh [of h _ _ "''data''"]
         in \<open>simp_all add: run new_cells_def Let_def\<close>)
  qed
qed

lemma valid_ref_HRef: "valid_ref h (HRef a) = (a < length h)"
  by (simp add: valid_ref_def)

lemma heap_closed_cell:
  "heap_closed h \<Longrightarrow> a < length h \<Longrightarrow> v \<in> set (refs_of (h ! a)) \<Longrightarrow> valid_ref h v"
  using nth_mem [of a h] by (auto simp add: heap_closed_def list_all_iff)

lemma prop_of_in_values: "prop_of ps name = HRef a \<Longrightarrow> HRef a \<in> snd ` set ps"
  by (auto simp add: prop_of_def split: option.splits dest!: map_of_SomeD intro: rev_image_eqI)

lemma store_get_valid:
  assumes "heap_closed h" and "store_get h this name = HRef m"
  shows "m < length h"
proof (cases "cell_at h this")
  case None
  with assms(2) show ?thesis by (simp add: store_get_def)
next
  case (Some c)
  then have lt: "this < length h" and c: "c = h ! this"
    by (auto simp add: cell_at_def split: if_splits)
  show ?thesis
  proof (cases c)
    case (ObjectCell ps)
    with assms(2) Some have "HRef m \<in> snd ` set ps"
      by (simp add: store_get_def prop_of_in_values)
    with ObjectCell c have "HRef m \<in> set (refs_of (h ! this))"
      by (simp add: refs_of_def)
    from heap_closed_cell [OF assms(1) lt this] show ?thesis
      by (simp add: valid_ref_HRef)
  next
    case (ArrayCell xs)
    with assms(2) Some show ?thesis by (simp add: store_get_def)
  qed
qed

lemma store_props_valid:
  assumes "heap_closed h" and "p \<in> set (store_props h v)"
  shows "valid_ref h (snd p)"
proof (cases v)
  case (HRef m)
  show ?thesis
  proof (cases "cell_at h m")
    case None
    with HRef assms(2) show ?thesis by (simp add: store_props_def)
  next
    case (Some c)
    then have lt: "m < length h" and c: "c = h ! m"
      by (auto simp add: cell_at_def split: if_splits)
    show ?thesis
    proof (cases c)
      case (ObjectCell ps)
      with HRef Some assms(2) obtain name where p: "p = (name, prop_of ps name)"
        by (auto simp add: store_props_def)
      show ?thesis
      proof (cases "prop_of ps name")
        case (HRef a)
        then have "HRef a \<in> set (refs_of (h ! m))"
          using prop_of_in_values [of ps name a] ObjectCell c by (simp add: refs_of_def)
        from heap_closed_cell [OF assms(1) lt this] HRef p show ?thesis by simp
      qed (simp_all add: p valid_ref_def)
    next
      case (ArrayCell xs)
      with HRef Some assms(2) have "snd p \<in> set xs"
        by (cases p) (auto simp add: store_props_def dest: set_zip_rightD)
      with ArrayCell c have "snd p \<in> set (refs_of (h ! m))"
        by (simp add: refs_of_def)
      from heap_closed_cell [OF assms(1) lt this] show ?thesis .
    qed
  qed
next
  case (HStr s)
  with assms(2) have "p \<in> set (zip (index_names (length s)) (map (\<lambda>c. HStr [c]) s))"
    by (simp add: store_props_def)
  then have "snd p \<in> set (map (\<lambda>c. HStr [c]) s)"
    by (metis set_zip_rightD prod.collapse)
  then show ?thesis
    by (auto simp add: valid_ref_def)
qed (use assms(2) in \<open>simp_all add: store_props_def\<close>)

lemma set_update_subset: "set (AList.update k v ps) \<subseteq> insert (k, v) (set ps)"
  by (induction ps) auto

lemma foldl_prop_step_valid:
  assumes "\<forall>p \<in> set ps. valid_ref h (snd p)" and "\<forall>p \<in> set props. valid_ref h (snd p)"
  shows "\<forall>p \<in> set (foldl (prop_step t) ps props). valid_ref h (snd p)"
  using assms
proof (induction props arbitrary: ps)
  case Nil
  then show ?case by simp
next
  case (Cons q props)
  have "\<forall>p \<in> set (prop_step t ps q). valid_ref h (snd p)"
    using Cons.prems set_update_subset [of "fst q" "snd q" ps]
    by (cases q) (auto simp add: prop_step_def)
  with Cons show ?case by simp
qed

lemma record_props_valid:
  assumes "heap_closed h" and "prop_of (record_props h this type) name = HRef d"
  shows "d < length h"
proof -
  let ?ps = "foldl (prop_step (length h)) [] (store_props h (store_get h this ''metadata''))"
  have "\<forall>p \<in> set ?ps. valid_ref h (snd p)"
    by (rule foldl_prop_step_valid) (simp_all add: store_props_valid [OF assms(1)])
  then have "\<forall>p \<in> set (record_props h this type). valid_ref h (snd p)"
    using set_update_subset [of "''type''" "HStr (toUpperCase type)" ?ps]
    by (auto simp add: record_props_def valid_ref_def)
  moreover have "HRef d \<in> snd ` set (record_props h this type)"
    using assms(2) by (rule prop_of_in_values)
  ultimately show ?thesis
    by (auto simp add: valid_ref_HRef)
qed

lemma foldl_prop_step_target:
  assumes "\<forall>p \<in> set props. snd p \<noteq> HRef t \<and> snd p \<noteq> HRef t'"
  shows "foldl (prop_step t) ps props = foldl (prop_step t') ps props"
  using assms
proof (induction props arbitrary: ps)
  case Nil
  show ?case by simp
next
  case (Cons q props)
  then have "prop_step t ps q = prop_step t' ps q"
    by (cases q) (auto simp add: prop_step_def)
  with Cons show ?case by simp
qed

lemma record_props_append:
  assumes "heap_closed h" and "this < length h"
  shows "record_props (h @ xs) this type = record_props h this type"
proof -
  let ?md = "store_get h this ''metadata''"
  have md: "store_get (h @ xs) this ''metadata'' = ?md"
    using assms(2) by (rule store_get_append)
  have props: "store_props (h @ xs) ?md = store_props h ?md"
    using store_get_valid [OF assms(1)] by (rule store_props_append)
  have "snd p \<noteq> HRef (length (h @ xs)) \<and> snd p \<noteq> HRef (length h)"
    if "p \<in> set (store_props h ?md)" for p
    using store_props_valid [OF assms(1) that] by (auto simp add: valid_ref_HRef)
  then have "\<forall>p \<in> set (store_props h ?md).
      snd p \<noteq> HRef (length (h @ xs)) \<and> snd p \<noteq> HRef (length h)"
    by blast
  then have "foldl (prop_step (length (h @ xs))) [] (store_props h ?md) =
      foldl (prop_step (length h)) [] (store_props h ?md)"
    by (rule foldl_prop_step_target)
  then show ?thesis
    unfolding record_props_def md props by simp
qed

lemma map_values_update:
  "f v = f v' \<Longrightarrow>
     map (\<lambda>p. (fst p, f (snd p))) (AList.update k v ps) =
     map (\<lambda>p. (fst p, f (snd p))) (AList.update k v' ps)"
  by (induction ps) auto

lemma map_values_delete:
  "map (\<lambda>p. (fst p, f (snd p))) (AList.delete k ps) =
     AList.delete k (map (\<lambda>p. (fst p, f (snd p))) ps)"
  by (induction ps) auto

lemma reify_same_cell:
  "cell_at h a = Some c \<Longrightarrow> cell_at h b = Some c \<Longrightarrow> reify n h (HRef a) = reify n h (HRef b)"
  by (cases n) simp_all

lemma reify_wrapped:
  assumes "cell_at h a = Some (ObjectCell (AList.delete ''data'' (AList.update ''rrdatas'' (HRef x) ps)))"
    and "cell_at h b = Some (ObjectCell (AList.delete ''data'' (AList.update ''rrdatas'' (HRef y) ps)))"
    and "cell_at h x = Some c" and "cell_at h y = Some c"
  shows "reify n h (HRef a) = reify n h (HRef b)"
proof (cases n)
  case 0
  then show ?thesis by simp
next
  case (Suc m)
  have "reify m h (HRef x) = reify m h (HRef y)"
    using assms(3,4) by (rule reify_same_cell)
  then have "map (\<lambda>p. (fst p, reify m h (snd p))) (AList.update ''rrdatas'' (HRef x) ps) =
      map (\<lambda>p. (fst p, reify m h (snd p))) (AList.update ''rrdatas'' (HRef y) ps)"
    by (rule map_values_update)
  then show ?thesis
    by (simp add: Suc assms(1,2) map_values_delete)
qed

lemma toJSON_store_closed:
  assumes "heap_closed h" and "this < length h" and "store_get h this ''type'' = HStr type"
  shows "toJSON_store h this = Inr (length h, h @ new_cells h this type)"
  using assms(2,3) store_get_valid [OF assms(1)] record_props_valid [OF assms(1)]
  by (rule toJSON_store_shape)

lemma toJSON_store_again:
  assumes "heap_closed h" and "this < length h" and "store_get h this ''type'' = HStr type"
  shows "toJSON_store (h @ xs) this = Inr (length (h @ xs), (h @ xs) @ new_cells (h @ xs) this type)"
proof (rule toJSON_store_shape)
  show "this < length (h @ xs)"
    using assms(2) by simp
  show "store_get (h @ xs) this ''type'' = HStr type"
    using assms(2,3) by (simp add: store_get_append)
  show "m < length (h @ xs)" if "store_get (h @ xs) this ''metadata'' = HRef m" for m
    using that store_get_valid [OF assms(1), of this "''metadata''" m] assms(2)
    by (simp add: store_get_append)
  show "d < length (h @ xs)" if "prop_of (record_props (h @ xs) this type) ''data'' = HRef d" for d
    using that record_props_valid [OF assms(1), of this type "''data''" d]
    by (simp add: record_props_append [OF assms(1,2)])
qed

text \<open>The cells of a second call: the same as those of the first, or wrapped again.\<close>

lemma new_cells_again:
  assumes "heap_closed h" and "this < length h"
  shows "new_cells (h @ xs) this type = new_cells h this type \<and> length (new_cells h this type) = 2
       \<or> new_cells h this type =
            [ObjectCell (AList.delete ''data''
               (AList.update ''rrdatas'' (HRef (length h + 2)) (record_props h this type))),
             ObjectCell [(''type'', HStr (toUpperCase type))],
             ArrayCell [prop_of (record_props h this type) ''data'']]
          \<and> new_cells (h @ xs) this type =
            [ObjectCell (AList.delete ''data''
               (AList.update ''rrdatas'' (HRef (length (h @ xs) + 2)) (record_props h this type))),
             ObjectCell [(''type'', HStr (toUpperCase type))],
             ArrayCell [prop_of (record_props h this type) ''data'']]"
proof -
  let ?ps = "record_props h this type"
  let ?data = "prop_of ?ps ''data''"
  note ps = record_props_append [OF assms]
  show ?thesis
  proof (cases "store_truthy ?data")
    case False
    then show ?thesis
      by (simp add: new_cells_def ps Let_def)
  next
    case True
    show ?thesis
    proof (cases ?data)
      case (HRef d)
      then have "d < length h"
        by (rule record_props_valid [OF assms(1)])
      then have c: "cell_at (h @ xs) d = cell_at h d"
        by (rule cell_at_append_old)
      show ?thesis
      proof (cases "cell_at h d")
        case None
        with True HRef c show ?thesis
          by (simp add: new_cells_def ps Let_def)
      next
        case (Some cl)
        with True HRef c show ?thesis
          by (cases cl) (simp_all add: new_cells_def ps Let_def)
      qed
    qed (use True in \<open>simp_all add: new_cells_def ps Let_def\<close>)
  qed
qed

lemma cell_at_offset: "length h = n \<Longrightarrow> cell_at (h @ c # xs) n = Some c"
  using cell_at_length [of h c xs] by simp

section \<open>The claims\<close>

subsection \<open>Wire serialization\<close>

text \<open>
  C1, as amended. For a record whose type is a string and whose metadata is an object,
  \<open>toJSON\<close> returns a mapping whose \<open>type\<close> is the upper-cased type and whose other fields
  (apart from \<open>data\<close> and \<open>rrdatas\<close>) are the metadata's fields that are not \<open>undefined\<close>.
  If the metadata's \<open>data\<close> is truthy it is removed and \<open>rrdatas\<close> holds it as a sequence
  (a non-empty string becomes a one-element sequence, a sequence passes through unchanged).
  If \<open>data\<close> is absent or falsy, \<open>data\<close> is left as it is and \<open>toJSON\<close> adds no \<open>rrdatas\<close>:
  the output has that key exactly when the metadata itself carried one.
\<close>

theorem toJSON_mapping:
  assumes "getProperty this ''type'' = JStr type"
    and "getProperty this ''metadata'' = JObj metadata"
  shows "\<exists>json. toJSON this = Inr json
    \<and> getProperty json ''type'' = JStr (toUpperCase type)
    \<and> (\<forall>name. name \<notin> {''type'', ''data'', ''rrdatas''} \<longrightarrow>
          getProperty json name = getProperty metadata name
          \<and> hasOwn json name = (getProperty metadata name \<noteq> JUndefined))
    \<and> (truthy (getProperty metadata ''data'') \<longrightarrow>
          \<not> hasOwn json ''data'' \<and> hasOwn json ''rrdatas''
          \<and> getProperty json ''rrdatas'' = JArr (arrify (getProperty metadata ''data'')))
    \<and> (\<forall>s. getProperty metadata ''data'' = JStr s \<and> s \<noteq> [] \<longrightarrow>
          getProperty json ''rrdatas'' = JArr [JStr s])
    \<and> (\<forall>xs. getProperty metadata ''data'' = JArr xs \<longrightarrow>
          getProperty json ''rrdatas'' = JArr xs)
    \<and> (\<not> truthy (getProperty metadata ''data'') \<longrightarrow>
          getProperty json ''data'' = getProperty metadata ''data''
          \<and> getProperty json ''rrdatas'' = getProperty metadata ''rrdatas''
          \<and> hasOwn json ''rrdatas'' = (getProperty metadata ''rrdatas'' \<noteq> JUndefined))"
proof -
  obtain json where j: "toJSON this = Inr json"
    using toJSON_type [OF assms(1)] by blast
  note g = toJSON_obj_get [OF assms j] and h = toJSON_obj_has [OF assms j]
  have "getProperty json ''type'' = JStr (toUpperCase type)"
    by (simp add: g)
  moreover have "\<forall>name. name \<notin> {''type'', ''data'', ''rrdatas''} \<longrightarrow>
          getProperty json name = getProperty metadata name
          \<and> hasOwn json name = (getProperty metadata name \<noteq> JUndefined)"
    by (simp add: g h)
  moreover have "truthy (getProperty metadata ''data'') \<longrightarrow>
          \<not> hasOwn json ''data'' \<and> hasOwn json ''rrdatas''
          \<and> getProperty json ''rrdatas'' = JArr (arrify (getProperty metadata ''data''))"
    by (simp add: g h)
  moreover have "\<forall>s. getProperty metadata ''data'' = JStr s \<and> s \<noteq> [] \<longrightarrow>
          getProperty json ''rrdatas'' = JArr [JStr s]"
    by (simp add: g truthy_simps arrify_simps)
  moreover have "\<forall>xs. getProperty metadata ''data'' = JArr xs \<longrightarrow>
          getProperty json ''rrdatas'' = JArr xs"
    by (simp add: g truthy_simps arrify_simps)
  moreover have "\<not> truthy (getProperty metadata ''data'') \<longrightarrow>
          getProperty json ''data'' = getProperty metadata ''data''
          \<and> getProperty json ''rrdatas'' = getProperty metadata ''rrdatas''
          \<and> hasOwn json ''rrdatas'' = (getProperty metadata ''rrdatas'' \<noteq> JUndefined)"
    by (simp add: g h)
  ultimately show ?thesis using j by blast
qed

text \<open>
  The amended statement at the record of the source's own example: type \<open>a\<close>, data
  \<open>1.2.3.4\<close>.
\<close>

theorem toJSON_mapping_witness:
  "\<exists>json. toJSON [(''type'', JStr ''a''),
                  (''metadata'', JObj [(''name'', JStr ''example.com.''), (''ttl'', JNum 86400),
                                       (''data'', JStr ''1.2.3.4'')])] = Inr json
     \<and> getProperty json ''type'' = JStr ''A''
     \<and> getProperty json ''name'' = JStr ''example.com.''
     \<and> getProperty json ''ttl'' = JNum 86400
     \<and> \<not> hasOwn json ''data''
     \<and> getProperty json ''rrdatas'' = JArr [JStr ''1.2.3.4'']"
proof -
  let ?m = "[(''name'', JStr ''example.com.''), (''ttl'', JNum 86400), (''data'', JStr ''1.2.3.4'')]"
  let ?rec = "[(''type'', JStr ''a''), (''metadata'', JObj ?m)]"
  have t: "getProperty ?rec ''type'' = JStr ''a''"
    and m: "getProperty ?rec ''metadata'' = JObj ?m"
    by (simp_all add: getProperty_Cons)
  have d: "getProperty ?m ''data'' = JStr ''1.2.3.4''" "truthy (getProperty ?m ''data'')"
    "getProperty ?m ''name'' = JStr ''example.com.''" "getProperty ?m ''ttl'' = JNum 86400"
    by (simp_all add: getProperty_Cons truthy_simps)
  have u: "toUpperCase ''a'' = ''A''"
    by code_simp
  obtain json where j: "toJSON ?rec = Inr json"
    and 1: "getProperty json ''type'' = JStr (toUpperCase ''a'')"
    and 2: "\<forall>name. name \<notin> {''type'', ''data'', ''rrdatas''} \<longrightarrow>
          getProperty json name = getProperty ?m name
          \<and> hasOwn json name = (getProperty ?m name \<noteq> JUndefined)"
    and 3: "truthy (getProperty ?m ''data'') \<longrightarrow>
          \<not> hasOwn json ''data'' \<and> hasOwn json ''rrdatas''
          \<and> getProperty json ''rrdatas'' = JArr (arrify (getProperty ?m ''data''))"
    and 4: "\<forall>s. getProperty ?m ''data'' = JStr s \<and> s \<noteq> [] \<longrightarrow>
          getProperty json ''rrdatas'' = JArr [JStr s]"
    using toJSON_mapping [OF t m] by blast
  have "getProperty json ''name'' = JStr ''example.com.''"
    using 2 [rule_format, of "''name''"] d by simp
  moreover have "getProperty json ''ttl'' = JNum 86400"
    using 2 [rule_format, of "''ttl''"] d by simp
  moreover have "\<not> hasOwn json ''data''"
    using 3 d by simp
  moreover have "getProperty json ''rrdatas'' = JArr [JStr ''1.2.3.4'']"
    using 4 [rule_format, of "''1.2.3.4''"] d by simp
  ultimately show ?thesis
    using j 1 u by simp
qed

text \<open>
  C1 as stated fails twice. A record constructed with the empty string as \<open>data\<close> has a
  \<open>data\<close> field in its metadata, yet \<open>toJSON\<close> keeps \<open>data\<close> and produces no \<open>rrdatas\<close>. A record
  constructed from wire-style metadata (\<open>rrdatas\<close>, no \<open>data\<close>) has no \<open>data\<close> field in its
  metadata, yet the output of \<open>toJSON\<close> contains \<open>rrdatas\<close>.
\<close>

theorem toJSON_falsy_data_kept:
  "Record JNull ''a'' (JObj [(''name'', JStr ''example.com.''), (''ttl'', JNum 300), (''data'', JStr '''')])
     = Inr [(''zone_'', JNull), (''type'', JStr ''A''),
            (''metadata'', JObj [(''name'', JStr ''example.com.''), (''ttl'', JNum 300), (''data'', JStr '''')]),
            (''name'', JStr ''example.com.''), (''ttl'', JNum 300), (''data'', JStr '''')]
   \<and> hasOwn [(''name'', JStr ''example.com.''), (''ttl'', JNum 300), (''data'', JStr '''')] ''data''
   \<and> toJSON [(''zone_'', JNull), (''type'', JStr ''A''),
            (''metadata'', JObj [(''name'', JStr ''example.com.''), (''ttl'', JNum 300), (''data'', JStr '''')]),
            (''name'', JStr ''example.com.''), (''ttl'', JNum 300), (''data'', JStr '''')]
     = Inr [(''name'', JStr ''example.com.''), (''ttl'', JNum 300), (''data'', JStr ''''),
            (''type'', JStr ''A'')]
   \<and> Record JNull ''a'' (JObj [(''name'', JStr ''example.com.''), (''ttl'', JNum 300),
                               (''rrdatas'', JArr [JStr ''1.2.3.4''])])
     = Inr [(''zone_'', JNull), (''type'', JStr ''A''),
            (''metadata'', JObj [(''name'', JStr ''example.com.''), (''ttl'', JNum 300),
                                 (''rrdatas'', JArr [JStr ''1.2.3.4''])]),
            (''name'', JStr ''example.com.''), (''ttl'', JNum 300),
            (''data'', JArr [JStr ''1.2.3.4''])]
   \<and> \<not> hasOwn [(''name'', JStr ''example.com.''), (''ttl'', JNum 300),
                (''rrdatas'', JArr [JStr ''1.2.3.4''])] ''data''
   \<and> toJSON [(''zone_'', JNull), (''type'', JStr ''A''),
            (''metadata'', JObj [(''name'', JStr ''example.com.''), (''ttl'', JNum 300),
                                 (''rrdatas'', JArr [JStr ''1.2.3.4''])]),
            (''name'', JStr ''example.com.''), (''ttl'', JNum 300),
            (''data'', JArr [JStr ''1.2.3.4''])]
     = Inr [(''name'', JStr ''example.com.''), (''ttl'', JNum 300),
            (''rrdatas'', JArr [JStr ''1.2.3.4'']), (''type'', JStr ''A'')]"
  by code_simp

text \<open>
  C10, as amended. The \<open>rrdatas\<close> handling of \<open>toJSON\<close> is gated on the truthiness of \<open>data\<close>,
  not on the presence of the key: a truthy \<open>data\<close> is replaced by \<open>rrdatas\<close>; for a \<open>data\<close> that
  is present but falsy nothing is renamed and \<open>toJSON\<close> adds no \<open>rrdatas\<close>, so the output has
  the \<open>rrdatas\<close> key exactly when the metadata itself carries one. A record whose data is
  the empty string and whose metadata has no \<open>rrdatas\<close> serializes with \<open>data\<close> present and
  without the \<open>rrdatas\<close> key, while a record whose data is the empty sequence serializes
  with \<open>rrdatas\<close> present and empty.
\<close>

theorem toJSON_rrdatas_truthiness:
  assumes "getProperty this ''type'' = JStr type"
    and "getProperty this ''metadata'' = JObj metadata"
  shows "\<exists>json. toJSON this = Inr json
    \<and> (truthy (getProperty metadata ''data'') \<longrightarrow>
          hasOwn json ''rrdatas'' \<and> \<not> hasOwn json ''data''
          \<and> getProperty json ''rrdatas'' = JArr (arrify (getProperty metadata ''data'')))
    \<and> (\<not> truthy (getProperty metadata ''data'') \<longrightarrow>
          hasOwn json ''rrdatas'' = (getProperty metadata ''rrdatas'' \<noteq> JUndefined)
          \<and> getProperty json ''rrdatas'' = getProperty metadata ''rrdatas''
          \<and> getProperty json ''data'' = getProperty metadata ''data'')
    \<and> (getProperty metadata ''data'' = JStr [] \<and> getProperty metadata ''rrdatas'' = JUndefined \<longrightarrow>
          hasOwn json ''data'' \<and> \<not> hasOwn json ''rrdatas'')
    \<and> (getProperty metadata ''data'' = JArr [] \<longrightarrow>
          hasOwn json ''rrdatas'' \<and> getProperty json ''rrdatas'' = JArr [])"
proof -
  obtain json where j: "toJSON this = Inr json"
    using toJSON_type [OF assms(1)] by blast
  note g = toJSON_obj_get [OF assms j] and h = toJSON_obj_has [OF assms j]
  have "truthy (getProperty metadata ''data'') \<longrightarrow>
          hasOwn json ''rrdatas'' \<and> \<not> hasOwn json ''data''
          \<and> getProperty json ''rrdatas'' = JArr (arrify (getProperty metadata ''data''))"
    by (simp add: g h)
  moreover have "\<not> truthy (getProperty metadata ''data'') \<longrightarrow>
          hasOwn json ''rrdatas'' = (getProperty metadata ''rrdatas'' \<noteq> JUndefined)
          \<and> getProperty json ''rrdatas'' = getProperty metadata ''rrdatas''
          \<and> getProperty json ''data'' = getProperty metadata ''data''"
    by (simp add: g h)
  moreover have "getProperty metadata ''data'' = JStr [] \<and> getProperty metadata ''rrdatas'' = JUndefined \<longrightarrow>
          hasOwn json ''data'' \<and> \<not> hasOwn json ''rrdatas''"
    by (simp add: g h truthy_simps)
  moreover have "getProperty metadata ''data'' = JArr [] \<longrightarrow>
          hasOwn json ''rrdatas'' \<and> getProperty json ''rrdatas'' = JArr []"
    by (simp add: g h truthy_simps arrify_simps)
  ultimately show ?thesis using j by blast
qed

text \<open>
  Both cases of the amended C10 at concrete records: data \<open>""\<close> and data \<open>[]\<close>.
\<close>

theorem toJSON_rrdatas_truthiness_witness:
  "(\<exists>json. toJSON [(''type'', JStr ''a''), (''metadata'', JObj [(''name'', JStr ''example.com.''), (''data'', JStr '''')])] = Inr json
       \<and> hasOwn json ''data'' \<and> \<not> hasOwn json ''rrdatas'')
   \<and> (\<exists>json. toJSON [(''type'', JStr ''a''), (''metadata'', JObj [(''name'', JStr ''example.com.''), (''data'', JArr [])])] = Inr json
       \<and> hasOwn json ''rrdatas'' \<and> getProperty json ''rrdatas'' = JArr [])"
proof -
  let ?m1 = "[(''name'', JStr ''example.com.''), (''data'', JStr '''')]"
  let ?m2 = "[(''name'', JStr ''example.com.''), (''data'', JArr [])]"
  have t: "\<And>m. getProperty [(''type'', JStr ''a''), (''metadata'', JObj m)] ''type'' = JStr ''a''"
    and m: "\<And>m. getProperty [(''type'', JStr ''a''), (''metadata'', JObj m)] ''metadata'' = JObj m"
    by (simp_all add: getProperty_Cons)
  have d1: "getProperty ?m1 ''data'' = JStr [] \<and> getProperty ?m1 ''rrdatas'' = JUndefined"
    by (simp add: getProperty_Cons getProperty_Nil)
  have d2: "getProperty ?m2 ''data'' = JArr []"
    by (simp add: getProperty_Cons)
  show ?thesis
    using toJSON_rrdatas_truthiness [OF t m, of ?m1] toJSON_rrdatas_truthiness [OF t m, of ?m2] d1 d2
    by blast
qed

text \<open>
  C10 as stated fails: the record constructed from metadata whose \<open>data\<close> and \<open>rrdatas\<close> are
  both the empty string has a \<open>data\<close> that is present and falsy, and its \<open>toJSON\<close> output has
  the \<open>rrdatas\<close> key, copied from the metadata.
\<close>

theorem toJSON_falsy_data_with_rrdatas:
  "Record JNull ''a'' (JObj [(''data'', JStr ''''), (''rrdatas'', JStr '''')])
     = Inr [(''zone_'', JNull), (''type'', JStr ''A''),
            (''metadata'', JObj [(''data'', JStr ''''), (''rrdatas'', JStr '''')]),
            (''data'', JStr ''''), (''rrdatas'', JStr '''')]
   \<and> hasOwn [(''data'', JStr ''''), (''rrdatas'', JStr '''')] ''data''
   \<and> \<not> truthy (getProperty [(''data'', JStr ''''), (''rrdatas'', JStr '''')] ''data'')
   \<and> toJSON [(''zone_'', JNull), (''type'', JStr ''A''),
            (''metadata'', JObj [(''data'', JStr ''''), (''rrdatas'', JStr '''')]),
            (''data'', JStr ''''), (''rrdatas'', JStr '''')]
     = Inr [(''data'', JStr ''''), (''rrdatas'', JStr ''''), (''type'', JStr ''A'')]
   \<and> hasOwn [(''data'', JStr ''''), (''rrdatas'', JStr ''''), (''type'', JStr ''A'')] ''rrdatas''"
  by code_simp

text \<open>
  C6, as amended. Round trip: for every record constructed from metadata that has no field
  \<open>metadata\<close> of its own, if the record's \<open>data\<close> is a sequence (given as a sequence, wrapped
  from a scalar, or renamed from \<open>rrdatas\<close>), then the \<open>rrdatas\<close> of the record's \<open>toJSON\<close>
  output is that sequence, and renaming it back to \<open>data\<close> gives the record's \<open>data\<close> again.
\<close>

theorem rrdatas_roundtrip:
  assumes "Record zone type (JObj metadata) = Inr r"
    and "getProperty r ''data'' = JArr xs"
    and "getProperty metadata ''metadata'' = JUndefined"
  shows "\<exists>json. toJSON r = Inr json
      \<and> getProperty json ''rrdatas'' = JArr xs
      \<and> getProperty (deleteProperty (setProperty json ''data'' (getProperty json ''rrdatas'')) ''rrdatas'')
           ''data'' = getProperty r ''data''"
proof -
  obtain json0 r0 where j0: "toJSON [(''zone_'', zone), (''type'', JStr type), (''metadata'', JObj metadata)] = Inr json0"
    and r0: "Record zone type (JObj metadata) = Inr r0"
    and rr0: "getProperty json0 ''rrdatas'' =
       (if truthy (getProperty metadata ''data'') then JArr (arrify (getProperty metadata ''data''))
        else getProperty metadata ''rrdatas'')"
    and dd0: "getProperty json0 ''data'' =
       (if truthy (getProperty metadata ''data'') then JUndefined else getProperty metadata ''data'')"
    by (rule Record_obj)
  from r0 assms(1) have r: "Record zone type (JObj metadata) = Inr r"
    by simp
  note g0 = toJSON_obj_get [OF new_this_props(1) new_this_props(2) j0]
  note gr = Record_get [OF j0 r]
  have t: "getProperty r ''type'' = JStr (toUpperCase type)"
    using gr [of "''type''"] by (simp add: g0)
  have "getProperty json0 ''metadata'' = JUndefined"
    using assms(3) by (simp add: g0)
  then have m: "getProperty r ''metadata'' = JObj metadata"
    using gr [of "''metadata''"] by (simp add: new_this_props)
  obtain json where j: "toJSON r = Inr json"
    using toJSON_type [OF t] by blast
  note g = toJSON_obj_get [OF t m j, of "''rrdatas''"]
  have "getProperty json ''rrdatas'' = JArr xs"
  proof (cases "truthy (getProperty metadata ''data'')")
    case True
    then have "getProperty r ''data'' = JArr (arrify (getProperty metadata ''data''))"
      using gr [of "''data''"] rr0 by (simp add: truthy_simps)
    with True assms(2) show ?thesis
      using g by simp
  next
    case False
    note data_falsy = this
    show ?thesis
    proof (cases "truthy (getProperty metadata ''rrdatas'')")
      case True
      with data_falsy have "getProperty r ''data'' = getProperty metadata ''rrdatas''"
        using gr [of "''data''"] rr0 by simp
      with data_falsy assms(2) show ?thesis
        using g by simp
    next
      case False
      with data_falsy have "getProperty r ''data'' = getProperty metadata ''data''"
        using gr [of "''data''"] rr0 dd0 by (simp add: new_this_props)
      with assms(2) data_falsy show ?thesis
        by (simp add: truthy_simps)
    qed
  qed
  with j assms(2) show ?thesis
    by (simp add: getProperty_setProperty getProperty_deleteProperty)
qed

text \<open>
  The round trip at three constructed records, whose data was given as a sequence, as a
  scalar string, and as wire-style \<open>rrdatas\<close>.
\<close>

theorem rrdatas_roundtrip_witness:
  "(\<exists>json. toJSON [(''zone_'', JNull), (''type'', JStr ''A''),
                    (''metadata'', JObj [(''name'', JStr ''example.com.''), (''ttl'', JNum 300),
                                         (''data'', JArr [JStr ''1.2.3.4'', JStr ''5.6.7.8''])]),
                    (''name'', JStr ''example.com.''), (''ttl'', JNum 300),
                    (''data'', JArr [JStr ''1.2.3.4'', JStr ''5.6.7.8''])] = Inr json
       \<and> getProperty json ''rrdatas'' = JArr [JStr ''1.2.3.4'', JStr ''5.6.7.8''])
   \<and> (\<exists>json. toJSON [(''zone_'', JNull), (''type'', JStr ''A''),
                    (''metadata'', JObj [(''name'', JStr ''example.com.''), (''ttl'', JNum 300),
                                         (''data'', JStr ''1.2.3.4'')]),
                    (''name'', JStr ''example.com.''), (''ttl'', JNum 300),
                    (''data'', JArr [JStr ''1.2.3.4''])] = Inr json
       \<and> getProperty json ''rrdatas'' = JArr [JStr ''1.2.3.4''])
   \<and> (\<exists>json. toJSON [(''zone_'', JNull), (''type'', JStr ''A''),
                    (''metadata'', JObj [(''name'', JStr ''example.com.''), (''ttl'', JNum 300),
                                         (''rrdatas'', JArr [JStr ''1.2.3.4'', JStr ''5.6.7.8''])]),
                    (''name'', JStr ''example.com.''), (''ttl'', JNum 300),
                    (''data'', JArr [JStr ''1.2.3.4'', JStr ''5.6.7.8''])] = Inr json
       \<and> getProperty json ''rrdatas'' = JArr [JStr ''1.2.3.4'', JStr ''5.6.7.8''])"
proof -
  let ?m1 = "[(''name'', JStr ''example.com.''), (''ttl'', JNum 300),
              (''data'', JArr [JStr ''1.2.3.4'', JStr ''5.6.7.8''])]"
  let ?m2 = "[(''name'', JStr ''example.com.''), (''ttl'', JNum 300), (''data'', JStr ''1.2.3.4'')]"
  let ?m3 = "[(''name'', JStr ''example.com.''), (''ttl'', JNum 300),
              (''rrdatas'', JArr [JStr ''1.2.3.4'', JStr ''5.6.7.8''])]"
  let ?r1 = "[(''zone_'', JNull), (''type'', JStr ''A''), (''metadata'', JObj ?m1),
              (''name'', JStr ''example.com.''), (''ttl'', JNum 300),
              (''data'', JArr [JStr ''1.2.3.4'', JStr ''5.6.7.8''])]"
  let ?r2 = "[(''zone_'', JNull), (''type'', JStr ''A''), (''metadata'', JObj ?m2),
              (''name'', JStr ''example.com.''), (''ttl'', JNum 300),
              (''data'', JArr [JStr ''1.2.3.4''])]"
  let ?r3 = "[(''zone_'', JNull), (''type'', JStr ''A''), (''metadata'', JObj ?m3),
              (''name'', JStr ''example.com.''), (''ttl'', JNum 300),
              (''data'', JArr [JStr ''1.2.3.4'', JStr ''5.6.7.8''])]"
  have c1: "Record JNull ''a'' (JObj ?m1) = Inr ?r1"
    and c2: "Record JNull ''a'' (JObj ?m2) = Inr ?r2"
    and c3: "Record JNull ''a'' (JObj ?m3) = Inr ?r3"
    by code_simp+
  have d1: "getProperty ?r1 ''data'' = JArr [JStr ''1.2.3.4'', JStr ''5.6.7.8'']"
    and d2: "getProperty ?r2 ''data'' = JArr [JStr ''1.2.3.4'']"
    and d3: "getProperty ?r3 ''data'' = JArr [JStr ''1.2.3.4'', JStr ''5.6.7.8'']"
    by (simp_all add: getProperty_Cons)
  have n1: "getProperty ?m1 ''metadata'' = JUndefined"
    and n2: "getProperty ?m2 ''metadata'' = JUndefined"
    and n3: "getProperty ?m3 ''metadata'' = JUndefined"
    by (simp_all add: getProperty_Cons getProperty_Nil)
  show ?thesis
    using rrdatas_roundtrip [OF c1 d1 n1] rrdatas_roundtrip [OF c2 d2 n2]
      rrdatas_roundtrip [OF c3 d3 n3]
    by blast
qed

text \<open>
  C6 as stated fails: a field \<open>metadata\<close> inside the construction metadata is copied over
  the record's own \<open>metadata\<close>, from which \<open>toJSON\<close> serializes. The record constructed from
  \<^verbatim>\<open>{data: ['x'], metadata: {data: ['y']}}\<close> has the data \<open>['x']\<close>, and its \<open>toJSON\<close> output has
  the \<open>rrdatas\<close> \<open>['y']\<close>.
\<close>

theorem rrdatas_roundtrip_metadata_field:
  "Record JNull ''a'' (JObj [(''data'', JArr [JStr ''x'']),
                            (''metadata'', JObj [(''data'', JArr [JStr ''y''])])])
     = Inr [(''zone_'', JNull), (''type'', JStr ''A''),
            (''metadata'', JObj [(''data'', JArr [JStr ''y''])]),
            (''data'', JArr [JStr ''x''])]
   \<and> getProperty [(''zone_'', JNull), (''type'', JStr ''A''),
            (''metadata'', JObj [(''data'', JArr [JStr ''y''])]),
            (''data'', JArr [JStr ''x''])] ''data'' = JArr [JStr ''x'']
   \<and> toJSON [(''zone_'', JNull), (''type'', JStr ''A''),
            (''metadata'', JObj [(''data'', JArr [JStr ''y''])]),
            (''data'', JArr [JStr ''x''])]
     = Inr [(''type'', JStr ''A''), (''rrdatas'', JArr [JStr ''y''])]
   \<and> JArr [JStr ''y''] \<noteq> JArr [JStr ''x'']"
  by code_simp

subsection \<open>Construction\<close>

text \<open>
  C9. The constructor extends the new object with its own \<open>toJSON\<close> output, whose \<open>type\<close> is
  the upper-cased type: for every zone, type string and metadata value the construction
  succeeds and the \<open>type\<close> property of the constructed record is the upper-case form of the
  type that was passed. That form has the length of the type, has the capital letter in
  place of every lower-case letter \<open>a\<close> to \<open>z\<close>, every other character unchanged, and so no
  lower-case letter at all; upper-casing it again changes nothing. The caller's casing is
  not kept on the object.
\<close>

theorem Record_type_uppercase:
  "\<exists>r u. Record zone type metadata = Inr r
       \<and> getProperty r ''type'' = JStr u
       \<and> u = toUpperCase type
       \<and> length u = length type
       \<and> (\<forall>i < length type. \<forall>j < 26.
             type ! i = ''abcdefghijklmnopqrstuvwxyz'' ! j \<longrightarrow>
             u ! i = ''ABCDEFGHIJKLMNOPQRSTUVWXYZ'' ! j)
       \<and> (\<forall>i < length type.
             type ! i \<notin> set ''abcdefghijklmnopqrstuvwxyz'' \<longrightarrow> u ! i = type ! i)
       \<and> (\<forall>c \<in> set u. c \<notin> set ''abcdefghijklmnopqrstuvwxyz'')
       \<and> toUpperCase u = u"
proof -
  obtain json where j: "toJSON [(''zone_'', zone), (''type'', JStr type), (''metadata'', metadata)] = Inr json"
    and t: "getProperty json ''type'' = JStr (toUpperCase type)"
    using toJSON_new by blast
  obtain r where r: "Record zone type metadata = Inr r"
    using Record_unfold [OF j] by simp
  have stored: "getProperty r ''type'' = JStr (toUpperCase type)"
    using Record_get [OF j r, of "''type''"] t by simp
  have len: "length (toUpperCase type) = length type"
    by (simp add: toUpperCase_def)
  have letters: "\<forall>i < length type. \<forall>j < 26.
             type ! i = ''abcdefghijklmnopqrstuvwxyz'' ! j \<longrightarrow>
             toUpperCase type ! i = ''ABCDEFGHIJKLMNOPQRSTUVWXYZ'' ! j"
  proof (intro allI impI)
    fix i j
    assume "i < length type" and "j < 26"
      and "type ! i = ''abcdefghijklmnopqrstuvwxyz'' ! j"
    then show "toUpperCase type ! i = ''ABCDEFGHIJKLMNOPQRSTUVWXYZ'' ! j"
      using toUpperCase_char_letter [of j "type ! i"]
      by (simp only: toUpperCase_def nth_map)
  qed
  have others: "\<forall>i < length type.
             type ! i \<notin> set ''abcdefghijklmnopqrstuvwxyz'' \<longrightarrow> toUpperCase type ! i = type ! i"
  proof (intro allI impI)
    fix i
    assume i: "i < length type" and other: "type ! i \<notin> set ''abcdefghijklmnopqrstuvwxyz''"
    show "toUpperCase type ! i = type ! i"
      unfolding toUpperCase_def nth_map [OF i] by (rule toUpperCase_char_other [OF other])
  qed
  have no_lower: "\<forall>c \<in> set (toUpperCase type). c \<notin> set ''abcdefghijklmnopqrstuvwxyz''"
  proof
    fix c
    assume "c \<in> set (toUpperCase type)"
    then obtain d where c: "c = toUpperCase_char d"
      unfolding toUpperCase_def set_map by (rule imageE)
    show "c \<notin> set ''abcdefghijklmnopqrstuvwxyz''"
      unfolding c by (rule toUpperCase_char_no_lower)
  qed
  show ?thesis
  proof (intro exI conjI)
    show "Record zone type metadata = Inr r" by (rule r)
    show "getProperty r ''type'' = JStr (toUpperCase type)" by (rule stored)
    show "toUpperCase type = toUpperCase type" by (rule refl)
    show "length (toUpperCase type) = length type" by (rule len)
    show "\<forall>i < length type. \<forall>j < 26.
             type ! i = ''abcdefghijklmnopqrstuvwxyz'' ! j \<longrightarrow>
             toUpperCase type ! i = ''ABCDEFGHIJKLMNOPQRSTUVWXYZ'' ! j" by (rule letters)
    show "\<forall>i < length type.
             type ! i \<notin> set ''abcdefghijklmnopqrstuvwxyz'' \<longrightarrow> toUpperCase type ! i = type ! i"
      by (rule others)
    show "\<forall>c \<in> set (toUpperCase type). c \<notin> set ''abcdefghijklmnopqrstuvwxyz''"
      by (rule no_lower)
    show "toUpperCase (toUpperCase type) = toUpperCase type" by (rule toUpperCase_idem)
  qed
qed

text \<open>
  C9 at the mixed-case type \<open>sOa\<close>: the stored type is \<open>SOA\<close>, not the type as given.
\<close>

theorem Record_type_uppercase_witness:
  "\<exists>r. Record JNull ''sOa'' (JObj [(''name'', JStr ''example.com.''), (''ttl'', JNum 86400),
                                   (''data'', JStr ''1.2.3.4'')]) = Inr r
       \<and> getProperty r ''type'' = JStr ''SOA''
       \<and> getProperty r ''type'' \<noteq> JStr ''sOa''"
proof -
  let ?m = "JObj [(''name'', JStr ''example.com.''), (''ttl'', JNum 86400), (''data'', JStr ''1.2.3.4'')]"
  obtain r u where r: "Record JNull ''sOa'' ?m = Inr r"
    and t: "getProperty r ''type'' = JStr u"
    and len: "length u = length ''sOa''"
    and letters: "\<forall>i < length ''sOa''. \<forall>j < 26.
             ''sOa'' ! i = ''abcdefghijklmnopqrstuvwxyz'' ! j \<longrightarrow>
             u ! i = ''ABCDEFGHIJKLMNOPQRSTUVWXYZ'' ! j"
    and others: "\<forall>i < length ''sOa''.
             ''sOa'' ! i \<notin> set ''abcdefghijklmnopqrstuvwxyz'' \<longrightarrow> u ! i = ''sOa'' ! i"
    using Record_type_uppercase [of JNull "''sOa''" ?m] by blast
  have 0: "u ! 0 = CHR ''S''"
    using letters [rule_format, of 0 18] by simp
  have 1: "u ! 1 = CHR ''O''"
    using others [rule_format, of 1] by simp
  have 2: "u ! 2 = CHR ''A''"
    using letters [rule_format, of 2 0] by simp
  have "u = ''SOA''"
    using len 0 1 2 by (auto simp add: length_Suc_conv numeral_3_eq_3)
  with r t show ?thesis by simp
qed

text \<open>
  C8, as amended. After construction from an object as metadata, the record's \<open>rrdatas\<close> is
  never truthy. If the metadata's \<open>data\<close> is truthy, or failing that its \<open>rrdatas\<close> is truthy,
  the value is stored as \<open>data\<close> and the record has no \<open>rrdatas\<close> key. If both are falsy,
  nothing is renamed: \<open>data\<close> and \<open>rrdatas\<close> are on the record as the metadata gave them.
\<close>

theorem Record_rrdatas_renamed:
  "\<exists>r. Record zone type (JObj metadata) = Inr r
     \<and> \<not> truthy (getProperty r ''rrdatas'')
     \<and> (truthy (getProperty metadata ''data'') \<longrightarrow>
           \<not> hasOwn r ''rrdatas'' \<and> hasOwn r ''data''
           \<and> getProperty r ''data'' = JArr (arrify (getProperty metadata ''data'')))
     \<and> (\<not> truthy (getProperty metadata ''data'') \<and> truthy (getProperty metadata ''rrdatas'') \<longrightarrow>
           \<not> hasOwn r ''rrdatas'' \<and> hasOwn r ''data''
           \<and> getProperty r ''data'' = getProperty metadata ''rrdatas'')
     \<and> (\<not> truthy (getProperty metadata ''data'') \<and> \<not> truthy (getProperty metadata ''rrdatas'') \<longrightarrow>
           hasOwn r ''rrdatas'' = (getProperty metadata ''rrdatas'' \<noteq> JUndefined)
           \<and> getProperty r ''rrdatas'' = getProperty metadata ''rrdatas''
           \<and> getProperty r ''data'' = getProperty metadata ''data'')"
proof -
  obtain json r where j: "toJSON [(''zone_'', zone), (''type'', JStr type), (''metadata'', JObj metadata)] = Inr json"
    and r: "Record zone type (JObj metadata) = Inr r"
    and rr: "getProperty json ''rrdatas'' =
       (if truthy (getProperty metadata ''data'') then JArr (arrify (getProperty metadata ''data''))
        else getProperty metadata ''rrdatas'')"
    and dd: "getProperty json ''data'' =
       (if truthy (getProperty metadata ''data'') then JUndefined else getProperty metadata ''data'')"
    by (rule Record_obj)
  note g = Record_get [OF j r] and h = Record_has [OF j r]
  have "\<not> truthy (getProperty r ''rrdatas'')"
    by (simp add: g new_this_props truthy_simps)
  moreover have "truthy (getProperty metadata ''data'') \<longrightarrow>
           \<not> hasOwn r ''rrdatas'' \<and> hasOwn r ''data''
           \<and> getProperty r ''data'' = JArr (arrify (getProperty metadata ''data''))"
    by (simp add: g h rr truthy_simps)
  moreover have "\<not> truthy (getProperty metadata ''data'') \<and> truthy (getProperty metadata ''rrdatas'') \<longrightarrow>
           \<not> hasOwn r ''rrdatas'' \<and> hasOwn r ''data''
           \<and> getProperty r ''data'' = getProperty metadata ''rrdatas''"
    by (simp add: g h rr)
  moreover have "\<not> truthy (getProperty metadata ''data'') \<and> \<not> truthy (getProperty metadata ''rrdatas'') \<longrightarrow>
           hasOwn r ''rrdatas'' = (getProperty metadata ''rrdatas'' \<noteq> JUndefined)
           \<and> getProperty r ''rrdatas'' = getProperty metadata ''rrdatas''
           \<and> getProperty r ''data'' = getProperty metadata ''data''"
    by (simp add: g h rr dd new_this_props)
  ultimately show ?thesis using r by blast
qed

text \<open>
  The three cases of the amended C8: wire-style metadata, application-style metadata, and
  a \<open>null\<close> \<open>rrdatas\<close> that stays on the record.
\<close>

theorem Record_rrdatas_renamed_witness:
  "(\<exists>r. Record JNull ''a'' (JObj [(''name'', JStr ''example.com.''), (''ttl'', JNum 300),
                                   (''rrdatas'', JArr [JStr ''1.2.3.4''])]) = Inr r
       \<and> \<not> hasOwn r ''rrdatas'' \<and> hasOwn r ''data''
       \<and> getProperty r ''data'' = JArr [JStr ''1.2.3.4''])
   \<and> (\<exists>r. Record JNull ''a'' (JObj [(''name'', JStr ''example.com.''), (''ttl'', JNum 300),
                                   (''data'', JStr ''1.2.3.4'')]) = Inr r
       \<and> \<not> hasOwn r ''rrdatas'' \<and> hasOwn r ''data''
       \<and> getProperty r ''data'' = JArr [JStr ''1.2.3.4''])
   \<and> (\<exists>r. Record JNull ''a'' (JObj [(''name'', JStr ''example.com.''), (''ttl'', JNum 300),
                                   (''rrdatas'', JNull)]) = Inr r
       \<and> hasOwn r ''rrdatas'' \<and> getProperty r ''rrdatas'' = JNull)"
proof -
  let ?m1 = "[(''name'', JStr ''example.com.''), (''ttl'', JNum 300), (''rrdatas'', JArr [JStr ''1.2.3.4''])]"
  let ?m2 = "[(''name'', JStr ''example.com.''), (''ttl'', JNum 300), (''data'', JStr ''1.2.3.4'')]"
  let ?m3 = "[(''name'', JStr ''example.com.''), (''ttl'', JNum 300), (''rrdatas'', JNull)]"
  have 1: "\<not> truthy (getProperty ?m1 ''data'') \<and> truthy (getProperty ?m1 ''rrdatas'')
      \<and> getProperty ?m1 ''rrdatas'' = JArr [JStr ''1.2.3.4'']"
    by (simp add: getProperty_Cons getProperty_Nil truthy_simps)
  have 2: "truthy (getProperty ?m2 ''data'')
      \<and> JArr (arrify (getProperty ?m2 ''data'')) = JArr [JStr ''1.2.3.4'']"
    by (simp add: getProperty_Cons getProperty_Nil truthy_simps arrify_simps)
  have 3: "\<not> truthy (getProperty ?m3 ''data'') \<and> \<not> truthy (getProperty ?m3 ''rrdatas'')
      \<and> getProperty ?m3 ''rrdatas'' = JNull"
    by (simp add: getProperty_Cons getProperty_Nil truthy_def)
  have "\<exists>r. Record JNull ''a'' (JObj ?m1) = Inr r
       \<and> \<not> hasOwn r ''rrdatas'' \<and> hasOwn r ''data''
       \<and> getProperty r ''data'' = JArr [JStr ''1.2.3.4'']"
    using Record_rrdatas_renamed [of JNull "''a''" ?m1] 1 by metis
  moreover have "\<exists>r. Record JNull ''a'' (JObj ?m2) = Inr r
       \<and> \<not> hasOwn r ''rrdatas'' \<and> hasOwn r ''data''
       \<and> getProperty r ''data'' = JArr [JStr ''1.2.3.4'']"
    using Record_rrdatas_renamed [of JNull "''a''" ?m2] 2 by metis
  moreover have "\<exists>r. Record JNull ''a'' (JObj ?m3) = Inr r
       \<and> hasOwn r ''rrdatas'' \<and> getProperty r ''rrdatas'' = JNull"
    using Record_rrdatas_renamed [of JNull "''a''" ?m3] 3 by (metis jsval.distinct(1))
  ultimately show ?thesis by blast
qed

text \<open>
  C8 as stated fails: for metadata whose \<open>data\<close> and \<open>rrdatas\<close> are both the empty string
  the guard \<^verbatim>\<open>if (this.rrdatas)\<close> is not taken, and the constructed record has both keys.
\<close>

theorem Record_data_rrdatas_coexist:
  "Record JNull ''a'' (JObj [(''data'', JStr ''''), (''rrdatas'', JStr '''')])
     = Inr [(''zone_'', JNull), (''type'', JStr ''A''),
            (''metadata'', JObj [(''data'', JStr ''''), (''rrdatas'', JStr '''')]),
            (''data'', JStr ''''), (''rrdatas'', JStr '''')]
   \<and> hasOwn [(''zone_'', JNull), (''type'', JStr ''A''),
            (''metadata'', JObj [(''data'', JStr ''''), (''rrdatas'', JStr '''')]),
            (''data'', JStr ''''), (''rrdatas'', JStr '''')] ''data''
   \<and> hasOwn [(''zone_'', JNull), (''type'', JStr ''A''),
            (''metadata'', JObj [(''data'', JStr ''''), (''rrdatas'', JStr '''')]),
            (''data'', JStr ''''), (''rrdatas'', JStr '''')] ''rrdatas''"
  by code_simp

subsection \<open>Construction from a zone-file record\<close>

text \<open>
  C2, as amended. For every type that lower-cases to a type of the format table and every
  field map that has the fields of that type's template, \<open>fromZoneRecord_\<close> returns a record
  whose \<open>name\<close> and \<open>ttl\<close> are those of the field map and whose \<open>data\<close> is the one-element
  sequence holding the fields' string forms in the table's order, separated by single
  spaces, provided that string is not empty; an empty string is stored as the string
  itself, not as a sequence.
\<close>

theorem fromZoneRecord_data:
  assumes "map_of spec_format_table (toLowerCase type) = Some fields"
    and "\<forall>key \<in> set fields. hasOwn bindData key"
  shows "\<exists>r. fromZoneRecord zone type bindData = Inr r
     \<and> getProperty r ''data'' =
         (if join '' '' (map (\<lambda>key. ToString (getProperty bindData key)) fields) = [] then JStr []
          else JArr [JStr (join '' '' (map (\<lambda>key. ToString (getProperty bindData key)) fields))])
     \<and> getProperty r ''name'' = getProperty bindData ''name''
     \<and> getProperty r ''ttl'' = getProperty bindData ''ttl''"
proof -
  obtain t where t: "map_of typeToZoneFormat (toLowerCase type) = Some t"
    and f: "replace_placeholders t bindData =
              join '' '' (map (\<lambda>key. replacer bindData (placeholder key) key) fields)"
    using format_table_agrees [OF assms(1)] by blast
  have "map (\<lambda>key. replacer bindData (placeholder key) key) fields =
        map (\<lambda>key. ToString (getProperty bindData key)) fields"
    using assms(2) by (simp add: replacer_def)
  with f have eq: "replace_placeholders t bindData =
      join '' '' (map (\<lambda>key. ToString (getProperty bindData key)) fields)"
    by simp
  show ?thesis
    unfolding fromZoneRecord_supported [OF t] eq
    by (rule Record_zone_metadata)
qed

text \<open>
  The SOA example of the specification: the order is mname, rname, serial, retry, refresh,
  expire, minimum.
\<close>

theorem fromZoneRecord_data_witness:
  "\<exists>r. fromZoneRecord JNull ''SOA''
          [(''name'', JStr ''example.com.''), (''ttl'', JNum 21600),
           (''mname'', JStr ''ns1.example.com.''), (''rname'', JStr ''admin.example.com.''),
           (''serial'', JNum 1), (''retry'', JNum 7200), (''refresh'', JNum 3600),
           (''expire'', JNum 1209600), (''minimum'', JNum 86400)] = Inr r
     \<and> getProperty r ''data'' =
          JArr [JStr ''ns1.example.com. admin.example.com. 1 7200 3600 1209600 86400'']
     \<and> getProperty r ''name'' = JStr ''example.com.''
     \<and> getProperty r ''ttl'' = JNum 21600"
proof -
  let ?bd = "[(''name'', JStr ''example.com.''), (''ttl'', JNum 21600),
           (''mname'', JStr ''ns1.example.com.''), (''rname'', JStr ''admin.example.com.''),
           (''serial'', JNum 1), (''retry'', JNum 7200), (''refresh'', JNum 3600),
           (''expire'', JNum 1209600), (''minimum'', JNum 86400)]"
  let ?fields = "[''mname'', ''rname'', ''serial'', ''retry'', ''refresh'', ''expire'', ''minimum'']"
  have 1: "map_of spec_format_table (toLowerCase ''SOA'') = Some ?fields"
    by code_simp
  have 2: "\<forall>key \<in> set ?fields. hasOwn ?bd key"
    by code_simp
  have 3: "join '' '' (map (\<lambda>key. ToString (getProperty ?bd key)) ?fields) =
      ''ns1.example.com. admin.example.com. 1 7200 3600 1209600 86400''"
    by code_simp
  have 4: "getProperty ?bd ''name'' = JStr ''example.com.''" "getProperty ?bd ''ttl'' = JNum 21600"
    by (simp_all add: getProperty_Cons)
  show ?thesis
    using fromZoneRecord_data [OF 1 2, of JNull] unfolding 3 4 by simp
qed

text \<open>
  C2 as stated fails where the substituted string is empty: a TXT record set whose \<open>txt\<close>
  field is the empty string provides the template's field, and the record's \<open>data\<close> is the
  empty string, not a one-element sequence.
\<close>

theorem fromZoneRecord_empty_data_scalar:
  "fromZoneRecord JNull ''TXT'' [(''name'', JStr ''example.com.''), (''ttl'', JNum 300), (''txt'', JStr '''')]
     = Inr [(''zone_'', JNull), (''type'', JStr ''TXT''),
            (''metadata'', JObj [(''data'', JStr ''''), (''name'', JStr ''example.com.''), (''ttl'', JNum 300)]),
            (''data'', JStr ''''), (''name'', JStr ''example.com.''), (''ttl'', JNum 300)]
   \<and> hasOwn [(''name'', JStr ''example.com.''), (''ttl'', JNum 300), (''txt'', JStr '''')] ''txt''
   \<and> getProperty [(''zone_'', JNull), (''type'', JStr ''TXT''),
            (''metadata'', JObj [(''data'', JStr ''''), (''name'', JStr ''example.com.''), (''ttl'', JNum 300)]),
            (''data'', JStr ''''), (''name'', JStr ''example.com.''), (''ttl'', JNum 300)] ''data''
       \<noteq> JArr [JStr '''']"
  by code_simp

text \<open>
  C4, as amended. For every type whose lower-case form is not in the format table,
  \<open>fromZoneRecord_\<close> fails, with the engine's \<open>TypeError\<close> raised when the substitution is
  applied to the missing template, and no record is produced.
\<close>

theorem fromZoneRecord_unknown_type:
  assumes "map_of typeToZoneFormat (toLowerCase type) = None"
  shows "fromZoneRecord zone type bindData = Inl TypeError"
  using assms by (simp add: fromZoneRecord_def format_def)

text \<open>
  The type \<open>BOGUS\<close> of the specification's example.
\<close>

theorem fromZoneRecord_unknown_type_witness:
  "fromZoneRecord JNull ''BOGUS'' [(''name'', JStr ''example.com.''), (''ttl'', JNum 300)] = Inl TypeError"
proof -
  have "map_of typeToZoneFormat (toLowerCase ''BOGUS'') = None"
    by code_simp
  then show ?thesis
    by (rule fromZoneRecord_unknown_type)
qed

text \<open>
  C4 as stated fails on the error's identity: the failure for \<open>BOGUS\<close> is a \<open>TypeError\<close>, not
  an error named \<open>UnsupportedRecordType\<close>.
\<close>

theorem fromZoneRecord_unknown_type_error_name:
  "fromZoneRecord JNull ''BOGUS'' [(''ip'', JStr ''1.2.3.4''), (''name'', JStr ''example.com.''), (''ttl'', JNum 300)]
     = Inl TypeError
   \<and> error_name TypeError = ''TypeError''
   \<and> error_name TypeError \<noteq> ''UnsupportedRecordType''"
  by code_simp

text \<open>
  C5, as amended. For every supported type and every field map that lacks a field of the
  type's template, \<open>fromZoneRecord_\<close> does not fail: it returns a record whose \<open>data\<close> is the
  one-element sequence holding the substituted string, in which every field the map has is
  replaced by its string form and every missing field's placeholder is left as it is.
\<close>

theorem fromZoneRecord_missing_field:
  assumes "map_of spec_format_table (toLowerCase type) = Some fields"
    and "key \<in> set fields"
    and "\<not> hasOwn bindData key"
  shows "\<exists>r. fromZoneRecord zone type bindData = Inr r
     \<and> getProperty r ''data'' =
          JArr [JStr (join '' '' (map (\<lambda>k. if hasOwn bindData k then ToString (getProperty bindData k)
                                          else placeholder k) fields))]
     \<and> getProperty r ''name'' = getProperty bindData ''name''
     \<and> getProperty r ''ttl'' = getProperty bindData ''ttl''"
proof -
  let ?subst = "\<lambda>k. if hasOwn bindData k then ToString (getProperty bindData k) else placeholder k"
  obtain t where t: "map_of typeToZoneFormat (toLowerCase type) = Some t"
    and f: "replace_placeholders t bindData =
              join '' '' (map (\<lambda>key. replacer bindData (placeholder key) key) fields)"
    using format_table_agrees [OF assms(1)] by blast
  have f': "replace_placeholders t bindData = join '' '' (map ?subst fields)"
    unfolding f by (simp add: replacer_def)
  have "?subst key \<in> set (map ?subst fields)"
    using assms(2) by (rule imageI [of key "set fields" ?subst, folded set_map])
  moreover have "?subst key \<noteq> []"
    using assms(3) by (simp add: placeholder_def)
  ultimately have "join '' '' (map ?subst fields) \<noteq> []"
    by (rule join_nonempty)
  then show ?thesis
    using Record_zone_metadata [of zone type "replace_placeholders t bindData"
        "getProperty bindData ''name''" "getProperty bindData ''ttl''"]
    by (simp add: fromZoneRecord_supported [OF t] f')
qed

text \<open>
  An MX record set without \<open>host\<close>: the placeholder stays in the data.
\<close>

theorem fromZoneRecord_missing_field_witness:
  "\<exists>r. fromZoneRecord JNull ''MX''
          [(''name'', JStr ''example.com.''), (''ttl'', JNum 300), (''preference'', JNum 10)] = Inr r
     \<and> getProperty r ''data'' = JArr [JStr ''10 {host}'']"
proof -
  let ?bd = "[(''name'', JStr ''example.com.''), (''ttl'', JNum 300), (''preference'', JNum 10)]"
  have 1: "map_of spec_format_table (toLowerCase ''MX'') = Some [''preference'', ''host'']"
    by code_simp
  have 2: "''host'' \<in> set [''preference'', ''host'']"
    by simp
  have 3: "\<not> hasOwn ?bd ''host''"
    by code_simp
  have 4: "join '' '' (map (\<lambda>k. if hasOwn ?bd k then ToString (getProperty ?bd k)
                                          else placeholder k) [''preference'', ''host'']) = ''10 {host}''"
    by code_simp
  show ?thesis
    using fromZoneRecord_missing_field [OF 1 2 3, of JNull] unfolding 4 by blast
qed

text \<open>
  C5 as stated fails: for an A record set without \<open>ip\<close> the result is a record, not an
  error.
\<close>

theorem fromZoneRecord_missing_field_no_error:
  "\<not> hasOwn [(''name'', JStr ''example.com.''), (''ttl'', JNum 300)] ''ip''
   \<and> fromZoneRecord JNull ''A'' [(''name'', JStr ''example.com.''), (''ttl'', JNum 300)]
     = Inr [(''zone_'', JNull), (''type'', JStr ''A''),
            (''metadata'', JObj [(''data'', JStr ''{ip}''), (''name'', JStr ''example.com.''), (''ttl'', JNum 300)]),
            (''name'', JStr ''example.com.''), (''ttl'', JNum 300), (''data'', JArr [JStr ''{ip}''])]"
  by code_simp

subsection \<open>Zone-file text\<close>

text \<open>
  C3, as amended. For every record whose type is a string and that has no own property
  \<open>toJSON\<close> in front of the method, with \<open>json\<close> the output of \<open>toJSON\<close>: if \<open>rrdatas\<close> is a
  sequence, \<open>toString\<close> returns one line \<open>{name} {ttl} IN {type} {rrdata}\<close> per entry, joined by
  newlines with no trailing newline (\<open>name\<close> and \<open>ttl\<close> replaced by the string forms of the
  fields of \<open>json\<close>, or left as placeholders if \<open>json\<close> lacks them; \<open>type\<close> replaced by the
  upper-cased type); for the empty sequence that is the empty string, with no line at all.
  If \<open>rrdatas\<close> is absent or falsy, the result is the single line for one synthetic entry,
  the empty object, whose string form is \<^verbatim>\<open>[object Object]\<close>. A truthy \<open>rrdatas\<close> that is not
  a sequence makes \<open>toString\<close> throw a \<open>TypeError\<close>, and so does an own property \<open>toJSON\<close> of
  the record, which the constructor copies from a metadata field of that name.
\<close>

theorem toString_lines:
  assumes "getProperty this ''type'' = JStr type"
  shows "(hasOwn this ''toJSON'' \<longrightarrow> toString this = Inl TypeError)
    \<and> (\<not> hasOwn this ''toJSON'' \<longrightarrow>
        (\<exists>json. toJSON this = Inr json
          \<and> (\<forall>rrdatas. getProperty json ''rrdatas'' = JArr rrdatas \<longrightarrow>
                toString this =
                  Inr (join [CHR 0x0A]
                         (map (\<lambda>rrdata. replacer json ''{name}'' ''name'' @ '' ''
                                         @ replacer json ''{ttl}'' ''ttl'' @ '' IN ''
                                         @ toUpperCase type @ '' '' @ ToString rrdata) rrdatas)))
          \<and> (getProperty json ''rrdatas'' = JArr [] \<longrightarrow> toString this = Inr [])
          \<and> (\<not> truthy (getProperty json ''rrdatas'') \<longrightarrow>
                toString this =
                  Inr (replacer json ''{name}'' ''name'' @ '' '' @ replacer json ''{ttl}'' ''ttl''
                       @ '' IN '' @ toUpperCase type @ '' [object Object]''))
          \<and> (truthy (getProperty json ''rrdatas'') \<and> (\<forall>xs. getProperty json ''rrdatas'' \<noteq> JArr xs) \<longrightarrow>
                toString this = Inl TypeError)))"
proof (intro conjI impI)
  assume "hasOwn this ''toJSON''"
  then show "toString this = Inl TypeError"
    by (simp add: toString_def call_toJSON_def)
next
  assume no_own: "\<not> hasOwn this ''toJSON''"
  obtain json where j: "toJSON this = Inr json"
    and t: "getProperty json ''type'' = JStr (toUpperCase type)"
    using toJSON_type [OF assms] by blast
  have call: "call_toJSON this = Inr json"
    using no_own j by (simp add: call_toJSON_def)
  have ty: "replacer json ''{type}'' ''type'' = toUpperCase type"
    using t by (rule replacer_defined)
  have arr: "toString this =
            Inr (join [CHR 0x0A]
                   (map (\<lambda>rrdata. replacer json ''{name}'' ''name'' @ '' ''
                                   @ replacer json ''{ttl}'' ''ttl'' @ '' IN ''
                                   @ toUpperCase type @ '' '' @ ToString rrdata) rrdatas))"
    if "getProperty json ''rrdatas'' = JArr rrdatas" for rrdatas
    using that by (simp add: toString_def call truthy_simps render_lines_eq zone_line replacer_setProperty ty)
  have empty: "toString this = Inr []" if "getProperty json ''rrdatas'' = JArr []"
    using arr [OF that] by simp
  have absent: "toString this =
            Inr (replacer json ''{name}'' ''name'' @ '' '' @ replacer json ''{ttl}'' ''ttl''
                 @ '' IN '' @ toUpperCase type @ '' [object Object]'')"
    if "\<not> truthy (getProperty json ''rrdatas'')"
    using that by (simp add: toString_def call render_lines_eq zone_line replacer_setProperty ty)
  have other: "toString this = Inl TypeError"
    if "truthy (getProperty json ''rrdatas'')" "\<forall>xs. getProperty json ''rrdatas'' \<noteq> JArr xs"
    using that by (cases "getProperty json ''rrdatas''") (simp_all add: toString_def call)
  show "\<exists>json. toJSON this = Inr json
          \<and> (\<forall>rrdatas. getProperty json ''rrdatas'' = JArr rrdatas \<longrightarrow>
                toString this =
                  Inr (join [CHR 0x0A]
                         (map (\<lambda>rrdata. replacer json ''{name}'' ''name'' @ '' ''
                                         @ replacer json ''{ttl}'' ''ttl'' @ '' IN ''
                                         @ toUpperCase type @ '' '' @ ToString rrdata) rrdatas)))
          \<and> (getProperty json ''rrdatas'' = JArr [] \<longrightarrow> toString this = Inr [])
          \<and> (\<not> truthy (getProperty json ''rrdatas'') \<longrightarrow>
                toString this =
                  Inr (replacer json ''{name}'' ''name'' @ '' '' @ replacer json ''{ttl}'' ''ttl''
                       @ '' IN '' @ toUpperCase type @ '' [object Object]''))
          \<and> (truthy (getProperty json ''rrdatas'') \<and> (\<forall>xs. getProperty json ''rrdatas'' \<noteq> JArr xs) \<longrightarrow>
                toString this = Inl TypeError)"
    using j arr empty absent other by blast
qed

text \<open>
  The two-address record of the specification renders to exactly its two lines, a record
  without data to the line of the synthetic entry, and for a record constructed from
  metadata with a field \<open>toJSON\<close> the call throws.
\<close>

theorem toString_lines_witness:
  "toString [(''zone_'', JNull), (''type'', JStr ''A''),
             (''metadata'', JObj [(''name'', JStr ''example.com.''), (''ttl'', JNum 300),
                                  (''data'', JArr [JStr ''1.2.3.4'', JStr ''5.6.7.8''])]),
             (''name'', JStr ''example.com.''), (''ttl'', JNum 300),
             (''data'', JArr [JStr ''1.2.3.4'', JStr ''5.6.7.8''])]
     = Inr (''example.com. 300 IN A 1.2.3.4'' @ [CHR 0x0A] @ ''example.com. 300 IN A 5.6.7.8'')
   \<and> toString [(''zone_'', JNull), (''type'', JStr ''A''),
             (''metadata'', JObj [(''name'', JStr ''example.com.''), (''ttl'', JNum 300)]),
             (''name'', JStr ''example.com.''), (''ttl'', JNum 300)]
     = Inr ''example.com. 300 IN A [object Object]''
   \<and> toString [(''zone_'', JNull), (''type'', JStr ''A''),
             (''metadata'', JObj [(''name'', JStr ''example.com.''), (''ttl'', JNum 300),
                                  (''data'', JStr ''1.2.3.4''), (''toJSON'', JStr ''x'')]),
             (''name'', JStr ''example.com.''), (''ttl'', JNum 300),
             (''toJSON'', JStr ''x''), (''data'', JArr [JStr ''1.2.3.4''])]
     = Inl TypeError"
proof -
  let ?r1 = "[(''zone_'', JNull), (''type'', JStr ''A''),
             (''metadata'', JObj [(''name'', JStr ''example.com.''), (''ttl'', JNum 300),
                                  (''data'', JArr [JStr ''1.2.3.4'', JStr ''5.6.7.8''])]),
             (''name'', JStr ''example.com.''), (''ttl'', JNum 300),
             (''data'', JArr [JStr ''1.2.3.4'', JStr ''5.6.7.8''])]"
  let ?j1 = "[(''name'', JStr ''example.com.''), (''ttl'', JNum 300), (''type'', JStr ''A''),
              (''rrdatas'', JArr [JStr ''1.2.3.4'', JStr ''5.6.7.8''])]"
  let ?r2 = "[(''zone_'', JNull), (''type'', JStr ''A''),
             (''metadata'', JObj [(''name'', JStr ''example.com.''), (''ttl'', JNum 300)]),
             (''name'', JStr ''example.com.''), (''ttl'', JNum 300)]"
  let ?j2 = "[(''name'', JStr ''example.com.''), (''ttl'', JNum 300), (''type'', JStr ''A'')]"
  let ?r3 = "[(''zone_'', JNull), (''type'', JStr ''A''),
             (''metadata'', JObj [(''name'', JStr ''example.com.''), (''ttl'', JNum 300),
                                  (''data'', JStr ''1.2.3.4''), (''toJSON'', JStr ''x'')]),
             (''name'', JStr ''example.com.''), (''ttl'', JNum 300),
             (''toJSON'', JStr ''x''), (''data'', JArr [JStr ''1.2.3.4''])]"
  have t1: "getProperty ?r1 ''type'' = JStr ''A''" and t2: "getProperty ?r2 ''type'' = JStr ''A''"
    and t3: "getProperty ?r3 ''type'' = JStr ''A''"
    by (simp_all add: getProperty_Cons)
  have m1: "\<not> hasOwn ?r1 ''toJSON''" and m2: "\<not> hasOwn ?r2 ''toJSON''"
    and m3: "hasOwn ?r3 ''toJSON''"
    by (simp_all add: hasOwn_Cons hasOwn_Nil)
  have j1: "toJSON ?r1 = Inr ?j1" and j2: "toJSON ?r2 = Inr ?j2"
    by code_simp+
  have rr1: "getProperty ?j1 ''rrdatas'' = JArr [JStr ''1.2.3.4'', JStr ''5.6.7.8'']"
    and rr2: "\<not> truthy (getProperty ?j2 ''rrdatas'')"
    by code_simp+
  have l1: "join [CHR 0x0A]
                   (map (\<lambda>rrdata. replacer ?j1 ''{name}'' ''name'' @ '' ''
                                   @ replacer ?j1 ''{ttl}'' ''ttl'' @ '' IN ''
                                   @ toUpperCase ''A'' @ '' '' @ ToString rrdata)
                      [JStr ''1.2.3.4'', JStr ''5.6.7.8''])
      = ''example.com. 300 IN A 1.2.3.4'' @ [CHR 0x0A] @ ''example.com. 300 IN A 5.6.7.8''"
    by code_simp
  have l2: "replacer ?j2 ''{name}'' ''name'' @ '' '' @ replacer ?j2 ''{ttl}'' ''ttl''
                 @ '' IN '' @ toUpperCase ''A'' @ '' [object Object]''
      = ''example.com. 300 IN A [object Object]''"
    by code_simp
  have "toString ?r1 = Inr (''example.com. 300 IN A 1.2.3.4'' @ [CHR 0x0A] @ ''example.com. 300 IN A 5.6.7.8'')"
    using toString_lines [OF t1] m1 rr1 unfolding j1 l1 [symmetric] by blast
  moreover have "toString ?r2 = Inr ''example.com. 300 IN A [object Object]''"
    using toString_lines [OF t2] m2 rr2 unfolding j2 l2 [symmetric] by blast
  moreover have "toString ?r3 = Inl TypeError"
    using toString_lines [OF t3] m3 by blast
  ultimately show ?thesis by blast
qed

text \<open>
  C3 as stated fails twice. The record constructed with \<open>data = []\<close> has the wire-shape
  \<open>rrdatas = []\<close>, and \<open>toString\<close> returns the empty string instead of the line of a
  synthetic entry. The record constructed from metadata with a field \<open>toJSON\<close> has that
  value as its own \<open>toJSON\<close>, and \<open>toString\<close> throws a \<open>TypeError\<close> instead of returning
  lines.
\<close>

theorem toString_empty_rrdatas:
  "Record JNull ''A'' (JObj [(''name'', JStr ''example.com.''), (''ttl'', JNum 300), (''data'', JArr [])])
     = Inr [(''zone_'', JNull), (''type'', JStr ''A''),
            (''metadata'', JObj [(''name'', JStr ''example.com.''), (''ttl'', JNum 300), (''data'', JArr [])]),
            (''name'', JStr ''example.com.''), (''ttl'', JNum 300), (''data'', JArr [])]
   \<and> toJSON [(''zone_'', JNull), (''type'', JStr ''A''),
            (''metadata'', JObj [(''name'', JStr ''example.com.''), (''ttl'', JNum 300), (''data'', JArr [])]),
            (''name'', JStr ''example.com.''), (''ttl'', JNum 300), (''data'', JArr [])]
     = Inr [(''name'', JStr ''example.com.''), (''ttl'', JNum 300), (''type'', JStr ''A''),
            (''rrdatas'', JArr [])]
   \<and> toString [(''zone_'', JNull), (''type'', JStr ''A''),
            (''metadata'', JObj [(''name'', JStr ''example.com.''), (''ttl'', JNum 300), (''data'', JArr [])]),
            (''name'', JStr ''example.com.''), (''ttl'', JNum 300), (''data'', JArr [])]
     = Inr ''''
   \<and> Record JNull ''A'' (JObj [(''name'', JStr ''example.com.''), (''ttl'', JNum 300),
                               (''data'', JStr ''1.2.3.4''), (''toJSON'', JStr ''x'')])
     = Inr [(''zone_'', JNull), (''type'', JStr ''A''),
            (''metadata'', JObj [(''name'', JStr ''example.com.''), (''ttl'', JNum 300),
                                 (''data'', JStr ''1.2.3.4''), (''toJSON'', JStr ''x'')]),
            (''name'', JStr ''example.com.''), (''ttl'', JNum 300),
            (''toJSON'', JStr ''x''), (''data'', JArr [JStr ''1.2.3.4''])]
   \<and> toString [(''zone_'', JNull), (''type'', JStr ''A''),
            (''metadata'', JObj [(''name'', JStr ''example.com.''), (''ttl'', JNum 300),
                                 (''data'', JStr ''1.2.3.4''), (''toJSON'', JStr ''x'')]),
            (''name'', JStr ''example.com.''), (''ttl'', JNum 300),
            (''toJSON'', JStr ''x''), (''data'', JArr [JStr ''1.2.3.4''])]
     = Inl TypeError"
  by code_simp

subsection \<open>Purity of the wire serialization\<close>

text \<open>
  C7. \<open>toJSON\<close> is pure and deterministic. In every closed store, for every record whose
  type is a string, a call of \<open>toJSON\<close> returns, and the store after the call is the store
  before it followed by the cells the call allocated: no existing cell is changed, so the
  record's own fields (\<open>type\<close>, \<open>metadata\<close>, \<open>name\<close>, \<open>data\<close>, \<open>ttl\<close>) and everything they refer to
  are as before. A second call on the same record returns as well, again changes nothing,
  and its result is structurally equal to the first: the two mappings denote the same tree
  at every depth.
\<close>

theorem toJSON_store_pure:
  assumes "heap_closed h" and "this < length h" and "store_get h this ''type'' = HStr type"
  shows "\<exists>json h' json' h''.
      toJSON_store h this = Inr (json, h')
    \<and> take (length h) h' = h
    \<and> (\<forall>name. store_get h' this name = store_get h this name)
    \<and> toJSON_store h' this = Inr (json', h'')
    \<and> take (length h') h'' = h'
    \<and> (\<forall>n. reify n h'' (HRef json) = reify n h'' (HRef json'))"
proof -
  define cs where "cs = new_cells h this type"
  define h' where "h' = h @ cs"
  define cs' where "cs' = new_cells h' this type"
  define h'' where "h'' = h' @ cs'"
  have run1: "toJSON_store h this = Inr (length h, h')"
    unfolding h'_def cs_def using assms by (rule toJSON_store_closed)
  have run2: "toJSON_store h' this = Inr (length h', h'')"
    unfolding h''_def cs'_def h'_def using assms by (rule toJSON_store_again)
  have fields: "\<forall>name. store_get h' this name = store_get h this name"
    unfolding h'_def using assms(2) by (simp add: store_get_append)
  have frame: "take (length h) h' = h" "take (length h') h'' = h'"
    by (simp_all add: h'_def h''_def)
  have equal: "reify n h'' (HRef (length h)) = reify n h'' (HRef (length h'))" for n
    using new_cells_again [OF assms(1,2), of cs type, folded cs_def h'_def, folded cs'_def]
  proof
    assume same: "cs' = cs \<and> length cs = 2"
    then obtain c0 c1 where cs: "cs = [c0, c1]"
      by (auto simp add: length_Suc_conv numeral_2_eq_2)
    have h'': "h'' = h @ [c0, c1, c0, c1]" and len: "length h' = length h + 2"
      using same by (simp_all add: h''_def h'_def cs)
    have "cell_at h'' (length h) = Some c0"
      unfolding h'' by (rule cell_at_length)
    moreover have "cell_at h'' (length h') = Some c0"
      unfolding h'' len using cell_at_offset [of "h @ [c0, c1]" "length h + 2" c0 "[c1]"]
      by simp
    ultimately show ?thesis
      by (rule reify_same_cell)
  next
    define ps where "ps = record_props h this type"
    define t where "t = ObjectCell [(''type'', HStr (toUpperCase type))]"
    define a where "a = ArrayCell [prop_of ps ''data'']"
    define o1 where "o1 = AList.delete ''data'' (AList.update ''rrdatas'' (HRef (length h + 2)) ps)"
    define o2 where "o2 = AList.delete ''data'' (AList.update ''rrdatas'' (HRef (length h' + 2)) ps)"
    assume "cs = [ObjectCell (AList.delete ''data''
               (AList.update ''rrdatas'' (HRef (length h + 2)) (record_props h this type))),
             ObjectCell [(''type'', HStr (toUpperCase type))],
             ArrayCell [prop_of (record_props h this type) ''data'']]
          \<and> cs' = [ObjectCell (AList.delete ''data''
               (AList.update ''rrdatas'' (HRef (length h' + 2)) (record_props h this type))),
             ObjectCell [(''type'', HStr (toUpperCase type))],
             ArrayCell [prop_of (record_props h this type) ''data'']]"
    then have cs: "cs = [ObjectCell o1, t, a]" and cs': "cs' = [ObjectCell o2, t, a]"
      by (simp_all add: o1_def o2_def t_def a_def ps_def)
    have h'': "h'' = h @ [ObjectCell o1, t, a, ObjectCell o2, t, a]"
      and len: "length h' = length h + 3"
      by (simp_all add: h''_def h'_def cs cs')
    have 1: "cell_at h'' (length h) = Some (ObjectCell o1)"
      unfolding h'' by (rule cell_at_length)
    have 2: "cell_at h'' (length h') = Some (ObjectCell o2)"
      unfolding h'' len
      using cell_at_offset [of "h @ [ObjectCell o1, t, a]" "length h + 3" "ObjectCell o2" "[t, a]"]
      by simp
    have 3: "cell_at h'' (length h + 2) = Some a"
      unfolding h''
      using cell_at_offset [of "h @ [ObjectCell o1, t]" "length h + 2" a "[ObjectCell o2, t, a]"]
      by simp
    have 4: "cell_at h'' (length h' + 2) = Some a"
      unfolding h'' len
      using cell_at_offset [of "h @ [ObjectCell o1, t, a, ObjectCell o2, t]" "length h + 3 + 2" a "[]"]
      by simp
    show ?thesis
      using 1 [unfolded o1_def] 2 [unfolded o2_def] 3 4 by (rule reify_wrapped)
  qed
  show ?thesis
    using run1 run2 fields frame equal by blast
qed

text \<open>
  C7 at a record constructed with the string \<open>1.2.3.4\<close> as data: the two calls return two
  different objects, each with a new \<open>rrdatas\<close> array, that denote the same mapping, the one
  \<open>toJSON\<close> computes on values.
\<close>

theorem toJSON_store_pure_witness:
  "\<exists>json h' json' h''.
      toJSON_store
        [ObjectCell [(''zone_'', HNull), (''type'', HStr ''A''), (''metadata'', HRef 1),
                     (''name'', HStr ''example.com.''), (''ttl'', HNum 300), (''data'', HRef 2)],
         ObjectCell [(''name'', HStr ''example.com.''), (''ttl'', HNum 300), (''data'', HStr ''1.2.3.4'')],
         ArrayCell [HStr ''1.2.3.4'']] 0 = Inr (json, h')
    \<and> take 3 h' =
        [ObjectCell [(''zone_'', HNull), (''type'', HStr ''A''), (''metadata'', HRef 1),
                     (''name'', HStr ''example.com.''), (''ttl'', HNum 300), (''data'', HRef 2)],
         ObjectCell [(''name'', HStr ''example.com.''), (''ttl'', HNum 300), (''data'', HStr ''1.2.3.4'')],
         ArrayCell [HStr ''1.2.3.4'']]
    \<and> toJSON_store h' 0 = Inr (json', h'')
    \<and> json \<noteq> json'
    \<and> (\<forall>n. reify n h'' (HRef json) = reify n h'' (HRef json'))
    \<and> reify 2 h'' (HRef json) =
        JObj [(''name'', JStr ''example.com.''), (''ttl'', JNum 300), (''type'', JStr ''A''),
              (''rrdatas'', JArr [JStr ''1.2.3.4''])]
    \<and> toJSON [(''zone_'', JNull), (''type'', JStr ''A''),
               (''metadata'', JObj [(''name'', JStr ''example.com.''), (''ttl'', JNum 300),
                                    (''data'', JStr ''1.2.3.4'')]),
               (''name'', JStr ''example.com.''), (''ttl'', JNum 300),
               (''data'', JArr [JStr ''1.2.3.4''])] =
        Inr [(''name'', JStr ''example.com.''), (''ttl'', JNum 300), (''type'', JStr ''A''),
             (''rrdatas'', JArr [JStr ''1.2.3.4''])]"
proof -
  define h0 where "h0 =
        [ObjectCell [(''zone_'', HNull), (''type'', HStr ''A''), (''metadata'', HRef 1),
                     (''name'', HStr ''example.com.''), (''ttl'', HNum 300), (''data'', HRef 2)],
         ObjectCell [(''name'', HStr ''example.com.''), (''ttl'', HNum 300), (''data'', HStr ''1.2.3.4'')],
         ArrayCell [HStr ''1.2.3.4'']]"
  define o1 where "o1 = ObjectCell [(''name'', HStr ''example.com.''), (''ttl'', HNum 300),
                                   (''type'', HStr ''A''), (''rrdatas'', HRef 5)]"
  define o2 where "o2 = ObjectCell [(''name'', HStr ''example.com.''), (''ttl'', HNum 300),
                                   (''type'', HStr ''A''), (''rrdatas'', HRef 8)]"
  define t where "t = ObjectCell [(''type'', HStr ''A'')]"
  define a where "a = ArrayCell [HStr ''1.2.3.4'']"
  have closed: "heap_closed h0" and len: "0 < length h0" "length h0 = 3"
    and ty: "store_get h0 0 ''type'' = HStr ''A''"
    unfolding h0_def by code_simp+
  obtain json h' json' h'' where r1: "toJSON_store h0 0 = Inr (json, h')"
    and fr: "take (length h0) h' = h0"
    and r2: "toJSON_store h' 0 = Inr (json', h'')"
    and eq: "\<forall>n. reify n h'' (HRef json) = reify n h'' (HRef json')"
    using toJSON_store_pure [OF closed len(1) ty] by blast
  have e1: "toJSON_store h0 0 = Inr (3, h0 @ [o1, t, a])"
    unfolding h0_def o1_def t_def a_def by code_simp
  have e2: "toJSON_store (h0 @ [o1, t, a]) 0 = Inr (6, h0 @ [o1, t, a, o2, t, a])"
    unfolding h0_def o1_def o2_def t_def a_def by code_simp
  have e3: "reify 2 (h0 @ [o1, t, a, o2, t, a]) (HRef 3) =
        JObj [(''name'', JStr ''example.com.''), (''ttl'', JNum 300), (''type'', JStr ''A''),
              (''rrdatas'', JArr [JStr ''1.2.3.4''])]"
    unfolding h0_def o1_def o2_def t_def a_def by code_simp
  have e4: "toJSON [(''zone_'', JNull), (''type'', JStr ''A''),
               (''metadata'', JObj [(''name'', JStr ''example.com.''), (''ttl'', JNum 300),
                                    (''data'', JStr ''1.2.3.4'')]),
               (''name'', JStr ''example.com.''), (''ttl'', JNum 300),
               (''data'', JArr [JStr ''1.2.3.4''])] =
        Inr [(''name'', JStr ''example.com.''), (''ttl'', JNum 300), (''type'', JStr ''A''),
             (''rrdatas'', JArr [JStr ''1.2.3.4''])]"
    by code_simp
  from r1 e1 have j: "json = 3" and h': "h' = h0 @ [o1, t, a]"
    by simp_all
  from r2 e2 h' have j': "json' = 6" and h'': "h'' = h0 @ [o1, t, a, o2, t, a]"
    by simp_all
  have "json \<noteq> json'"
    by (simp add: j j')
  moreover have "reify 2 h'' (HRef json) =
        JObj [(''name'', JStr ''example.com.''), (''ttl'', JNum 300), (''type'', JStr ''A''),
              (''rrdatas'', JArr [JStr ''1.2.3.4''])]"
    using e3 by (simp add: j h'')
  moreover have "take 3 h' = h0"
    using fr by (simp only: len(2))
  ultimately show ?thesis
    using r1 r2 eq e4 unfolding h0_def by blast
qed

end
